theory Spec2Isabelle
  imports Main "HOL-Library.Sublist"
begin

section \<open>Strings\<close>

text \<open>
  The strings the pages only compare, search for an ASCII marker, split at a dot or
  concatenate (messages, names, paths, MIME types, identifiers) are modelled as
  \<^typ>\<open>string\<close>: none of these operations depends on the encoding. The operations
  are \<open>includes\<close> (here \<open>includes_str\<close>), \<open>split(".").pop()\<close> and the decimal
  rendering of a number inside a template literal.

  The text of an input field of the upload form is trimmed, and what \<open>trim\<close> strips
  depends on the characters: such a text is the list of its UTF-16 code units, so that
  every text a user can type is there.
\<close>

fun startsWith :: "string \<Rightarrow> string \<Rightarrow> bool" where
  "startsWith s [] = True"
| "startsWith [] (c # m) = False"
| "startsWith (d # s) (c # m) = (d = c \<and> startsWith s m)"

fun includes_str :: "string \<Rightarrow> string \<Rightarrow> bool" where
  "includes_str [] m = (m = [])"
| "includes_str (c # s) m = (startsWith (c # s) m \<or> includes_str s m)"

type_synonym field_text = "nat list"

text \<open>
  What \<open>String.prototype.trim\<close> strips from both ends, the white space and the line
  terminators of ECMAScript: U+0009 to U+000D, U+0020, U+00A0, U+1680, U+2000 to
  U+200A, U+2028, U+2029, U+202F, U+205F, U+3000 and U+FEFF.
\<close>

definition isSpace :: "nat \<Rightarrow> bool" where
  "isSpace c =
     (c \<in> set [0x09, 0x0A, 0x0B, 0x0C, 0x0D, 0x20, 0xA0, 0x1680, 0x2028, 0x2029, 0x202F,
                0x205F, 0x3000, 0xFEFF]
      \<or> (0x2000 \<le> c \<and> c \<le> 0x200A))"

definition trim :: "field_text \<Rightarrow> field_text" where
  "trim s = rev (dropWhile isSpace (rev (dropWhile isSpace s)))"

text \<open>The code units of a text written in ASCII.\<close>

definition codeUnits :: "string \<Rightarrow> field_text" where
  "codeUnits s = map of_char s"

text \<open>
  \<open>name.split(".").pop()\<close>: the text after the last dot, the whole name when it has
  no dot. \<open>splitDot acc s\<close> scans \<open>s\<close> with the current segment in \<open>acc\<close>.
\<close>

fun splitDot :: "string \<Rightarrow> string \<Rightarrow> string list" where
  "splitDot acc [] = [acc]"
| "splitDot acc (c # s) = (if c = CHR ''.'' then acc # splitDot [] s else splitDot (acc @ [c]) s)"

definition popLast :: "string list \<Rightarrow> string" where
  "popLast xs = (case rev xs of [] \<Rightarrow> [] | x # _ \<Rightarrow> x)"

definition digit :: "nat \<Rightarrow> char" where
  "digit n = ''0123456789'' ! n"

function string_of_nat :: "nat \<Rightarrow> string" where
  "string_of_nat n =
     (if n < 10 then [digit n] else string_of_nat (n div 10) @ [digit (n mod 10)])"
  by pat_completeness auto
termination
  by (relation "measure (\<lambda>n. n)") auto

declare string_of_nat.simps [simp del]

section \<open>Data model\<close>

text \<open>A row of the \<open>slides\<close> table, with the columns the pages read and write.\<close>

record slide =
  slide_id :: string
  slide_title :: string
  slide_description :: string
  course_id :: string
  file_url :: string
  file_path :: string
  file_type :: string
  file_size :: nat
  created_at :: nat

text \<open>
  A value that is thrown, or with which a promise rejects. \<open>JsError m\<close> is an instance
  of \<open>Error\<close> with message \<open>m\<close>; \<open>JsObject m j\<close> is any other non-null object, with
  its \<open>message\<close> property \<open>m\<close> (empty when absent) and its \<open>JSON.stringify\<close> text
  \<open>j\<close>; \<open>JsOther\<close> is a primitive.
\<close>

datatype thrown = JsError string | JsObject string string | JsOther

text \<open>
  What the backend client answers to one call: the promise resolves without an error
  (\<open>Success\<close>), resolves with neither data nor error (\<open>NoData\<close>), resolves with an
  \<open>error\<close> object (message and JSON text), or rejects.
\<close>

datatype reply = Success | NoData | ErrorField string string | Rejects thrown

text \<open>The calls of the query builder, in the order they are chained.\<close>

datatype qop =
    Ilike string string
  | Eq string string
  | Not string string string
  | Order string bool

record upload_file =
  file_name :: string
  mime_type :: string
  byte_size :: nat

record slide_insert =
  ins_title :: field_text
  ins_description :: field_text
  ins_course_id :: field_text
  ins_file_path :: string
  ins_file_url :: string
  ins_file_type :: string
  ins_file_size :: nat

record upload_metadata =
  md_title :: field_text
  md_description :: field_text
  md_courseId :: field_text
  md_fileName :: string
  md_fileType :: string
  md_fileSize :: nat
  md_file_path :: string

datatype call =
    TestCount
  | Select "qop list"
  | SelectCourseIds
  | SelectIdLimit1
  | StorageRemove string
  | DeleteById string
  | Rpc_delete_slide string
  | StorageUpload string upload_file
  | Insert slide_insert

datatype variant = Unset | Default | Destructive

text \<open>
  The snapshot of props and state a render closes over: \<open>fetchSlides\<close> and
  \<open>deleteSlide\<close> read these values and never see the updates they make themselves.
\<close>

record closure =
  supabase :: bool
  session :: bool
  searchQuery :: string
  courseFilter :: string
  fileTypeFilter :: string
  sortOrder :: string
  isLoaded_captured :: bool

text \<open>
  Everything observable, in the order it happens: network calls, toasts, the
  \<open>console.error\<close> and \<open>console.warn\<close> lines (by their first argument), awaited sleeps,
  timers, the start of \<open>runDiagnostics\<close> (which is not awaited and runs on its own,
  so its own calls and toasts are left out), the completion callback of the upload
  form, and every state setter. The \<open>console.log\<close> lines are left out.
\<close>

datatype event =
    Net call
  | Toast string string variant
  | ConsoleError string
  | ConsoleWarn string
  | Sleep nat
  | SetTimeout nat nat
  | RunDiagnostics
  | Callback string upload_metadata
  | SetSlides "slide list"
  | SetCourses "string list"
  | SetIsLoaded bool
  | SetIsFetchingSlides bool
  | SetError "string option"
  | SetSelectedFile "upload_file option"
  | SetTitle field_text
  | SetDescription field_text
  | SetCourseId field_text
  | SetIsUploading bool
  | SetUploadProgress nat

text \<open>
  What both components share: the scripted answers of the backend, consumed one per
  call (an exhausted script answers \<open>Success\<close>), and the trace of events.
\<close>

record base =
  script :: "reply list"
  trace :: "event list"

text \<open>
  The content page: the remote \<open>slides\<close> table, the React state the page sets, and
  the pending timers (delay, the closure that set the timer, retry count).
\<close>

record page = base +
  rows :: "slide list"
  slides :: "slide list"
  courses :: "string list"
  isLoaded :: bool
  isFetchingSlides :: bool
  error :: "string option"
  timers :: "(nat \<times> closure \<times> nat) list"

datatype outcome = Normal | Return | Throw thrown

section \<open>Effects\<close>

definition emit :: "event \<Rightarrow> 'a base_scheme \<Rightarrow> 'a base_scheme" where
  "emit e s = s\<lparr>trace := trace s @ [e]\<rparr>"

definition net :: "call \<Rightarrow> 'a base_scheme \<Rightarrow> reply \<times> 'a base_scheme" where
  "net c s =
     (case script s of
        [] \<Rightarrow> (Success, emit (Net c) s)
      | r # rs \<Rightarrow> (r, emit (Net c) (s\<lparr>script := rs\<rparr>)))"

definition toast :: "string \<Rightarrow> string \<Rightarrow> variant \<Rightarrow> 'a base_scheme \<Rightarrow> 'a base_scheme" where
  "toast t d v s = emit (Toast t d v) s"

definition setSlides :: "slide list \<Rightarrow> page \<Rightarrow> page" where
  "setSlides v s = emit (SetSlides v) (s\<lparr>slides := v\<rparr>)"

definition setCourses :: "string list \<Rightarrow> page \<Rightarrow> page" where
  "setCourses v s = emit (SetCourses v) (s\<lparr>courses := v\<rparr>)"

definition setIsLoaded :: "bool \<Rightarrow> page \<Rightarrow> page" where
  "setIsLoaded v s = emit (SetIsLoaded v) (s\<lparr>isLoaded := v\<rparr>)"

definition setIsFetchingSlides :: "bool \<Rightarrow> page \<Rightarrow> page" where
  "setIsFetchingSlides v s = emit (SetIsFetchingSlides v) (s\<lparr>isFetchingSlides := v\<rparr>)"

definition setError :: "string option \<Rightarrow> page \<Rightarrow> page" where
  "setError v s = emit (SetError v) (s\<lparr>error := v\<rparr>)"

definition setTimeout :: "nat \<Rightarrow> closure \<Rightarrow> nat \<Rightarrow> page \<Rightarrow> page" where
  "setTimeout delay cl n s = emit (SetTimeout delay n) (s\<lparr>timers := timers s @ [(delay, cl, n)]\<rparr>)"

text \<open>\<open>[...new Set(xs)]\<close>: the distinct elements in the order of their first occurrence.\<close>

fun uniqueInOrder :: "'a list \<Rightarrow> 'a list" where
  "uniqueInOrder [] = []"
| "uniqueInOrder (x # xs) = x # uniqueInOrder (filter (\<lambda>y. y \<noteq> x) xs)"

section \<open>The content page: fetchSlides\<close>

text \<open>The main query of \<open>fetchSlides\<close>, built by reassigning \<open>query\<close> step by step.\<close>

definition applySearch :: "closure \<Rightarrow> qop list \<Rightarrow> qop list" where
  "applySearch cl query =
     (if searchQuery cl \<noteq> [] then query @ [Ilike ''title'' (''%'' @ searchQuery cl @ ''%'')]
      else query)"

definition applyCourse :: "closure \<Rightarrow> qop list \<Rightarrow> qop list" where
  "applyCourse cl query =
     (if courseFilter cl \<noteq> [] then query @ [Eq ''course_id'' (courseFilter cl)] else query)"

definition applyFileType :: "closure \<Rightarrow> qop list \<Rightarrow> qop list" where
  "applyFileType cl query =
     (if fileTypeFilter cl \<noteq> ''all'' then
        (if fileTypeFilter cl = ''image'' then query @ [Ilike ''file_type'' ''image/%'']
         else if fileTypeFilter cl = ''pdf'' then query @ [Eq ''file_type'' ''application/pdf'']
         else if fileTypeFilter cl = ''other'' then
           query @ [Not ''file_type'' ''ilike'' ''image/%'']
                 @ [Not ''file_type'' ''eq'' ''application/pdf'']
         else query)
      else query)"

definition applySort :: "closure \<Rightarrow> qop list \<Rightarrow> qop list" where
  "applySort cl query =
     (if sortOrder cl = ''newest'' then query @ [Order ''created_at'' False]
      else if sortOrder cl = ''oldest'' then query @ [Order ''created_at'' True]
      else if sortOrder cl = ''a-z'' then query @ [Order ''title'' True]
      else if sortOrder cl = ''z-a'' then query @ [Order ''title'' False]
      else query)"

definition buildQuery :: "closure \<Rightarrow> qop list" where
  "buildQuery cl = applySort cl (applyFileType cl (applyCourse cl (applySearch cl [])))"

text \<open>
  The secondary fetch of the course identifiers. \<open>Return\<close> is the early \<open>return\<close> on
  \<open>coursesError\<close>; a rejection is caught by the block's own \<open>catch\<close>.
\<close>

definition fetchCourses :: "closure \<Rightarrow> page \<Rightarrow> outcome \<times> page" where
  "fetchCourses cl s =
     (if \<not> isLoaded_captured cl then
        (case net SelectCourseIds s of
           (ErrorField m j, s1) \<Rightarrow> (Return, emit (ConsoleError ''Error fetching course IDs:'') s1)
         | (Rejects t, s1) \<Rightarrow> (Normal, emit (ConsoleError ''Error processing courses:'') s1)
         | (NoData, s1) \<Rightarrow> (Normal, s1)
         | (Success, s1) \<Rightarrow>
             (Normal, setIsLoaded True (setCourses (uniqueInOrder (map course_id (rows s1))) s1)))
      else (Normal, s))"

text \<open>
  The inner \<open>try\<close> block. The rows a successful main query returns are computed by
  \<open>run\<close>, the query evaluation of the remote store, which is not part of this
  repository and is a parameter.
\<close>

definition queryPhase ::
  "(qop list \<Rightarrow> slide list \<Rightarrow> slide list) \<Rightarrow> closure \<Rightarrow> page \<Rightarrow> outcome \<times> page" where
  "queryPhase run cl s =
     (case net TestCount s of
        (ErrorField m j, s1) \<Rightarrow> (Throw (JsError (''Connection test failed: '' @ m)), s1)
      | (Rejects t, s1) \<Rightarrow> (Throw t, s1)
      | (_, s1) \<Rightarrow>
          (case net (Select (buildQuery cl)) s1 of
             (ErrorField m j, s2) \<Rightarrow>
               (Throw (JsError (''Database query failed: '' @
                                (if m \<noteq> [] then m else ''Unknown database error''))),
                emit (ConsoleError ''Full error object:'')
                  (emit (ConsoleError ''Error in Supabase query:'') s2))
           | (Rejects t, s2) \<Rightarrow> (Throw t, s2)
           | (NoData, s2) \<Rightarrow>
               fetchCourses cl
                 (setSlides [] (emit (ConsoleWarn ''No data returned but no error either'') s2))
           | (Success, s2) \<Rightarrow>
               fetchCourses cl (setSlides (run (buildQuery cl) (rows s2)) s2)))"

text \<open>The inner \<open>catch\<close> logs and rethrows.\<close>

definition queryPhaseCaught ::
  "(qop list \<Rightarrow> slide list \<Rightarrow> slide list) \<Rightarrow> closure \<Rightarrow> page \<Rightarrow> outcome \<times> page" where
  "queryPhaseCaught run cl s =
     (case queryPhase run cl s of
        (Throw e, s1) \<Rightarrow> (Throw e, emit (ConsoleError ''Query execution error:'') s1)
      | r \<Rightarrow> r)"

text \<open>The outer \<open>try\<close> block.\<close>

definition fetchSlides_try ::
  "(qop list \<Rightarrow> slide list \<Rightarrow> slide list) \<Rightarrow> closure \<Rightarrow> page \<Rightarrow> outcome \<times> page" where
  "fetchSlides_try run cl s =
     (let s1 = setError None (setIsFetchingSlides True s) in
      if \<not> supabase cl then
        (Return,
         setIsFetchingSlides False
           (setError
              (Some ''Database connection not available. Please try refreshing the page.'')
              (emit (ConsoleError ''Supabase client is not initialized'') s1)))
      else if \<not> session cl then
        (Return,
         setIsFetchingSlides False
           (setError (Some ''You need to be logged in to view slides.'')
              (emit (ConsoleError ''No active session'') s1)))
      else queryPhaseCaught run cl s1)"

definition errorMessage_of :: "thrown \<Rightarrow> string" where
  "errorMessage_of e =
     (case e of JsError m \<Rightarrow> m | JsObject m j \<Rightarrow> j | JsOther \<Rightarrow> ''Unknown error'')"

definition isNetworkError :: "string \<Rightarrow> bool" where
  "isNetworkError errorMessage =
     (includes_str errorMessage ''Failed to fetch'' \<or> includes_str errorMessage ''NetworkError''
      \<or> includes_str errorMessage ''connection'')"

definition maxRetries :: nat where
  "maxRetries = 2"

definition classified :: "string \<Rightarrow> string" where
  "classified errorMessage =
     (if includes_str errorMessage ''Failed to fetch'' \<or> includes_str errorMessage ''NetworkError'' then
        ''Network connection error. Please check your internet connection and try again.''
      else if includes_str errorMessage ''permission'' \<or> includes_str errorMessage ''not allowed'' then
        ''You don't have permission to view these slides. Please check your account.''
      else ''Failed to load slides: '' @ errorMessage)"

text \<open>The outer \<open>catch\<close> block; its early \<open>return\<close> and its end both lead to \<open>finally\<close>.\<close>

definition fetchSlides_catch :: "closure \<Rightarrow> thrown \<Rightarrow> nat \<Rightarrow> page \<Rightarrow> page" where
  "fetchSlides_catch cl e retryCount s =
     (let s1 = setSlides [] s;
          errorMessage = errorMessage_of e;
          s2 = emit (ConsoleError ''Error fetching slides:'') s1
      in if isNetworkError errorMessage \<and> retryCount < maxRetries then
           (let nextRetryCount = retryCount + 1;
                delay = 1000 * nextRetryCount;
                s3 = toast ''Connection issue''
                       (''Retrying in '' @ string_of_nat (delay div 1000) @ '' seconds... (''
                        @ string_of_nat nextRetryCount @ ''/'' @ string_of_nat maxRetries @ '')'')
                       Default s2
            in setTimeout delay cl nextRetryCount s3)
         else
           emit RunDiagnostics
             (toast ''Error loading slides'' errorMessage Destructive
                (setError (Some (classified errorMessage)) s2)))"

definition fetchSlides ::
  "(qop list \<Rightarrow> slide list \<Rightarrow> slide list) \<Rightarrow> closure \<Rightarrow> nat \<Rightarrow> page \<Rightarrow> page" where
  "fetchSlides run cl retryCount s =
     (let (oc, s1) = fetchSlides_try run cl s;
          s2 = (case oc of Throw e \<Rightarrow> fetchSlides_catch cl e retryCount s1 | _ \<Rightarrow> s1)
      in setIsFetchingSlides False s2)"


text \<open>
  The event loop runs the oldest pending timer: the retry calls \<open>fetchSlides\<close> of the
  closure that set it.
\<close>

definition fireTimer :: "(qop list \<Rightarrow> slide list \<Rightarrow> slide list) \<Rightarrow> page \<Rightarrow> page" where
  "fireTimer run s =
     (case timers s of
        [] \<Rightarrow> s
      | (delay, cl, n) # ts \<Rightarrow> fetchSlides run cl n (s\<lparr>timers := ts\<rparr>))"

text \<open>The snapshot the next render closes over: it sees the \<open>isLoaded\<close> set so far.\<close>

definition rerender :: "page \<Rightarrow> closure \<Rightarrow> closure" where
  "rerender s cl = cl\<lparr>isLoaded_captured := isLoaded s\<rparr>"

text \<open>The events that happened from state \<open>s\<close> to state \<open>s'\<close>.\<close>

definition since :: "'a base_scheme \<Rightarrow> 'b base_scheme \<Rightarrow> event list" where
  "since s s' = drop (length (trace s)) (trace s')"

definition netCalls :: "event list \<Rightarrow> call list" where
  "netCalls tr = concat (map (\<lambda>e. case e of Net c \<Rightarrow> [c] | _ \<Rightarrow> []) tr)"

definition toastTitles :: "event list \<Rightarrow> string list" where
  "toastTitles tr = concat (map (\<lambda>e. case e of Toast t d v \<Rightarrow> [t] | _ \<Rightarrow> []) tr)"

text \<open>The titles of the toasts that report a failure (variant \<open>destructive\<close>).\<close>

definition failureToasts :: "event list \<Rightarrow> string list" where
  "failureToasts tr =
     concat (map (\<lambda>e. case e of Toast t d v \<Rightarrow> (if v = Destructive then [t] else []) | _ \<Rightarrow> []) tr)"

definition callbacks :: "event list \<Rightarrow> (string \<times> upload_metadata) list" where
  "callbacks tr = concat (map (\<lambda>e. case e of Callback u m \<Rightarrow> [(u, m)] | _ \<Rightarrow> []) tr)"

definition sleeps :: "event list \<Rightarrow> nat list" where
  "sleeps tr = concat (map (\<lambda>e. case e of Sleep ms \<Rightarrow> [ms] | _ \<Rightarrow> []) tr)"

text \<open>The answer the backend gives to the \<open>n\<close>-th call from now on (counted from 0).\<close>

definition replyAt :: "nat \<Rightarrow> reply list \<Rightarrow> reply" where
  "replyAt n rs = (case drop n rs of [] \<Rightarrow> Success | r # _ \<Rightarrow> r)"

text \<open>A call failed: it resolved with an \<open>error\<close> object or it rejected.\<close>

fun failed :: "reply \<Rightarrow> bool" where
  "failed (ErrorField m j) = True"
| "failed (Rejects t) = True"
| "failed r = False"

section \<open>The content page: deleteSlide\<close>

text \<open>
  The connectivity guard. A null client makes \<open>supabase.from\<close> throw a \<open>TypeError\<close>
  (with the message of V8) inside the guard's \<open>try\<close>.
\<close>

definition deleteSlide_test :: "closure \<Rightarrow> page \<Rightarrow> outcome \<times> page" where
  "deleteSlide_test cl s =
     (if \<not> supabase cl then
        (Throw (JsError ''Cannot read properties of null (reading 'from')''), s)
      else
        (case net SelectIdLimit1 s of
           (ErrorField m j, s1) \<Rightarrow>
             (Throw (JsError (''Database connection failed: '' @ m)),
              emit (ConsoleError ''Cannot access slides table:'') s1)
         | (Rejects t, s1) \<Rightarrow> (Throw t, s1)
         | (_, s1) \<Rightarrow> (Normal, s1)))"

definition maxRetries_remove :: nat where
  "maxRetries_remove = 3"

text \<open>
  The \<open>while\<close> loop that removes the blob, with its three variables \<open>retryCount\<close>,
  \<open>fileDeletedSuccessfully\<close> and \<open>storageError\<close> (here: whether it is set). The
  \<open>break\<close> after a removal without error leaves the loop at once.
\<close>

function removeFile :: "string \<Rightarrow> nat \<Rightarrow> bool \<Rightarrow> bool \<Rightarrow> page \<Rightarrow> bool \<times> bool \<times> page" where
  "removeFile filePath retryCount fileDeletedSuccessfully storageError s =
     (if retryCount < maxRetries_remove \<and> \<not> fileDeletedSuccessfully then
        (case net (StorageRemove filePath) s of
           (ErrorField m j, s1) \<Rightarrow>
             removeFile filePath (retryCount + 1) fileDeletedSuccessfully True
               (if retryCount + 1 < maxRetries_remove
                then emit (Sleep (1000 * (retryCount + 1))) s1 else s1)
         | (Rejects t, s1) \<Rightarrow>
             removeFile filePath (retryCount + 1) fileDeletedSuccessfully True
               (if retryCount + 1 < maxRetries_remove
                then emit (Sleep (1000 * (retryCount + 1)))
                       (emit (ConsoleError ''Unexpected error during file deletion:'') s1)
                else emit (ConsoleError ''Unexpected error during file deletion:'') s1)
         | (_, s1) \<Rightarrow> (True, storageError, s1))
      else (fileDeletedSuccessfully, storageError, s))"
  by pat_completeness auto
termination
  by (relation "measure (\<lambda>(filePath, retryCount, ok, err, s). maxRetries_remove - retryCount)") auto

declare removeFile.simps [simp del]

text \<open>The blob step: skipped for an empty path; a storage error left over is logged.\<close>

definition removeBlob :: "string \<Rightarrow> page \<Rightarrow> bool \<times> page" where
  "removeBlob filePath s =
     (if filePath \<noteq> [] then
        (case removeFile filePath 0 False False s of
           (fileDeletedSuccessfully, storageError, s1) \<Rightarrow>
             (fileDeletedSuccessfully,
              if storageError then
                emit (ConsoleWarn ''Continuing with database record deletion despite storage error'')
                  (emit (ConsoleError ''Error deleting file from storage after retries:'') s1)
              else s1))
      else (False, s))"

text \<open>
  What a delete that the store carried out does to the remote table. The store is not
  part of this repository: a call that resolves without an error has removed the row,
  a call that resolves with an error or rejects has left the table as it was.
\<close>

definition removeRow :: "string \<Rightarrow> page \<Rightarrow> page" where
  "removeRow slideId s = s\<lparr>rows := filter (\<lambda>r. slide_id r \<noteq> slideId) (rows s)\<rparr>"

text \<open>
  The metadata step: the delete by identifier and, on a permission or policy error, the
  remote procedure \<open>delete_slide\<close>. The \<open>error\<close> object of a reply is thrown as it is.
\<close>

definition deleteRecord :: "string \<Rightarrow> page \<Rightarrow> outcome \<times> page" where
  "deleteRecord slideId s =
     (case net (DeleteById slideId) s of
        (ErrorField m j, s1) \<Rightarrow>
          (if includes_str m ''permission'' \<or> includes_str m ''policy'' then
             (case net (Rpc_delete_slide slideId)
                     (emit (ConsoleWarn ''Permission error, trying alternative approach...'') s1) of
                (ErrorField m2 j2, s2) \<Rightarrow> (Throw (JsObject m2 j2), s2)
              | (Rejects t, s2) \<Rightarrow> (Throw t, s2)
              | (_, s2) \<Rightarrow> (Normal, removeRow slideId s2))
           else (Throw (JsObject m j), s1))
      | (Rejects t, s1) \<Rightarrow> (Throw t, s1)
      | (_, s1) \<Rightarrow> (Normal, removeRow slideId s1))"

text \<open>The optimistic removal from the displayed collection, before any network call.\<close>

definition optimisticRemoval :: "string \<Rightarrow> page \<Rightarrow> page" where
  "optimisticRemoval slideId s =
     toast ''Deleting slide...'' ''Removing the slide and associated file'' Unset
       (setSlides (filter (\<lambda>slide. slide_id slide \<noteq> slideId) (slides s)) s)"

definition deleteSlide_body ::
  "(qop list \<Rightarrow> slide list \<Rightarrow> slide list) \<Rightarrow> closure \<Rightarrow> string \<Rightarrow> string \<Rightarrow> page
   \<Rightarrow> outcome \<times> page" where
  "deleteSlide_body run cl slideId filePath s =
     (let s1 = optimisticRemoval slideId s
      in case deleteSlide_test cl s1 of
           (Throw testError, s2) \<Rightarrow>
             (Return,
              fetchSlides run cl 0
                (toast ''Connection Error''
                   ''Could not connect to database. Please try again later.'' Destructive
                   (emit (ConsoleError ''Test query failed:'') s2)))
         | (_, s2) \<Rightarrow>
             (case removeBlob filePath s2 of
                (fileDeletedSuccessfully, s3) \<Rightarrow>
                  (case deleteRecord slideId s3 of
                     (Throw dbError, s4) \<Rightarrow>
                       (Return,
                        emit RunDiagnostics
                          (fetchSlides run cl 0
                             (toast ''Error deleting slide''
                                (case dbError of JsError m \<Rightarrow> m
                                 | _ \<Rightarrow> ''Failed to delete slide from database.'')
                                Destructive
                                (emit (ConsoleError ''Error deleting slide from database:'') s4))))
                   | (_, s4) \<Rightarrow>
                       (Normal,
                        toast ''Slide deleted''
                          (if fileDeletedSuccessfully
                           then ''The slide and file have been successfully deleted.''
                           else ''The slide has been deleted but there may have been an issue removing the file.'')
                          Unset
                          (fetchSlides run cl 0 s4)))))"

text \<open>The outer \<open>catch\<close> of \<open>deleteSlide\<close>.\<close>

definition deleteSlide_catch ::
  "(qop list \<Rightarrow> slide list \<Rightarrow> slide list) \<Rightarrow> closure \<Rightarrow> thrown \<Rightarrow> page \<Rightarrow> page" where
  "deleteSlide_catch run cl e s =
     (let errorMessage =
            (case e of JsError m \<Rightarrow> m | JsObject m j \<Rightarrow> j
             | JsOther \<Rightarrow> ''An unexpected error occurred'')
      in emit RunDiagnostics
           (fetchSlides run cl 0
              (toast ''Error''
                 (if includes_str errorMessage ''Failed to fetch''
                  then ''Connection error. Please check your internet connection and try again.''
                  else ''Failed to delete slide: '' @ errorMessage)
                 Destructive
                 (emit (ConsoleError ''Unexpected error during slide deletion:'') s))))"

definition deleteSlide ::
  "(qop list \<Rightarrow> slide list \<Rightarrow> slide list) \<Rightarrow> closure \<Rightarrow> string \<Rightarrow> string \<Rightarrow> page \<Rightarrow> page" where
  "deleteSlide run cl slideId filePath s =
     (case deleteSlide_body run cl slideId filePath s of
        (Throw e, s1) \<Rightarrow> deleteSlide_catch run cl e s1
      | (_, s1) \<Rightarrow> s1)"

text \<open>
  For the statements about \<open>deleteSlide\<close>: the state in which the metadata step starts
  (after the optimistic removal, the guard and the blob step), the replies the source
  classifies as a permission or policy error, and the events of the blob step (the
  removal calls and the waits between them).
\<close>

definition metadataStepStart :: "closure \<Rightarrow> string \<Rightarrow> string \<Rightarrow> page \<Rightarrow> page" where
  "metadataStepStart cl slideId filePath s =
     snd (removeBlob filePath (snd (deleteSlide_test cl (optimisticRemoval slideId s))))"

text \<open>
  The deletion of the metadata record is confirmed when the guard let the flow through
  and the metadata step ended without raising.
\<close>

definition deletionConfirmed :: "closure \<Rightarrow> string \<Rightarrow> string \<Rightarrow> page \<Rightarrow> bool" where
  "deletionConfirmed cl slideId filePath s =
     (fst (deleteSlide_test cl (optimisticRemoval slideId s)) = Normal
      \<and> fst (deleteRecord slideId (metadataStepStart cl slideId filePath s)) = Normal)"

text \<open>The state in which \<open>deleteSlide\<close> calls \<open>fetchSlides\<close>, on each of its three paths.\<close>

definition refetchStart :: "closure \<Rightarrow> string \<Rightarrow> string \<Rightarrow> page \<Rightarrow> page" where
  "refetchStart cl slideId filePath s =
     (case deleteSlide_test cl (optimisticRemoval slideId s) of
        (Throw testError, s2) \<Rightarrow>
          toast ''Connection Error'' ''Could not connect to database. Please try again later.''
            Destructive (emit (ConsoleError ''Test query failed:'') s2)
      | (_, s2) \<Rightarrow>
          (case deleteRecord slideId (snd (removeBlob filePath s2)) of
             (Throw dbError, s4) \<Rightarrow>
               toast ''Error deleting slide''
                 (case dbError of JsError m \<Rightarrow> m
                  | _ \<Rightarrow> ''Failed to delete slide from database.'')
                 Destructive
                 (emit (ConsoleError ''Error deleting slide from database:'') s4)
           | (_, s4) \<Rightarrow> s4))"

fun permissionRejected :: "reply \<Rightarrow> bool" where
  "permissionRejected (ErrorField m j) =
     (includes_str m ''permission'' \<or> includes_str m ''policy'')"
| "permissionRejected r = False"

definition blobEvents :: "event list \<Rightarrow> event list" where
  "blobEvents tr =
     filter (\<lambda>e. case e of Net c \<Rightarrow> (case c of StorageRemove p \<Rightarrow> True | _ \<Rightarrow> False)
                     | Sleep ms \<Rightarrow> True | _ \<Rightarrow> False) tr"

section \<open>The upload form\<close>

record upload = base +
  selectedFile :: "upload_file option"
  title :: field_text
  description :: field_text
  courseId :: field_text
  isUploading :: bool
  uploadProgress :: nat

definition setSelectedFile :: "upload_file option \<Rightarrow> upload \<Rightarrow> upload" where
  "setSelectedFile v s = emit (SetSelectedFile v) (s\<lparr>selectedFile := v\<rparr>)"

definition setTitle :: "field_text \<Rightarrow> upload \<Rightarrow> upload" where
  "setTitle v s = emit (SetTitle v) (s\<lparr>title := v\<rparr>)"

definition setDescription :: "field_text \<Rightarrow> upload \<Rightarrow> upload" where
  "setDescription v s = emit (SetDescription v) (s\<lparr>description := v\<rparr>)"

definition setCourseId :: "field_text \<Rightarrow> upload \<Rightarrow> upload" where
  "setCourseId v s = emit (SetCourseId v) (s\<lparr>courseId := v\<rparr>)"

definition setIsUploading :: "bool \<Rightarrow> upload \<Rightarrow> upload" where
  "setIsUploading v s = emit (SetIsUploading v) (s\<lparr>isUploading := v\<rparr>)"

definition setUploadProgress :: "nat \<Rightarrow> upload \<Rightarrow> upload" where
  "setUploadProgress v s = emit (SetUploadProgress v) (s\<lparr>uploadProgress := v\<rparr>)"

definition validTypes :: "string list" where
  "validTypes = [''application/pdf'', ''image/jpeg'', ''image/png'', ''image/gif'']"

definition handleFileSelect :: "upload_file \<Rightarrow> upload \<Rightarrow> upload" where
  "handleFileSelect f s =
     (if mime_type f \<notin> set validTypes then
        toast ''Invalid file type'' ''Please upload a PDF or image file (JPEG, PNG, GIF).''
          Destructive s
      else if byte_size f > 10 * 1024 * 1024 then
        toast ''File too large'' ''Please upload a file smaller than 10MB.'' Destructive s
      else setSelectedFile (Some f) s)"

text \<open>One firing of the progress interval, and \<open>n\<close> of them.\<close>

definition progressTick :: "upload \<Rightarrow> upload" where
  "progressTick s =
     setUploadProgress
       (if uploadProgress s + 5 < 90 then uploadProgress s + 5 else uploadProgress s) s"

fun progressTicks :: "nat \<Rightarrow> upload \<Rightarrow> upload" where
  "progressTicks 0 s = s"
| "progressTicks (Suc n) s = progressTicks n (progressTick s)"

text \<open>The values \<open>n\<close> firings give the progress bar, starting from \<open>p\<close>.\<close>

fun progressValues :: "nat \<Rightarrow> nat \<Rightarrow> nat list" where
  "progressValues 0 p = []"
| "progressValues (Suc n) p =
     (if p + 5 < 90 then p + 5 else p) # progressValues n (if p + 5 < 90 then p + 5 else p)"

definition storagePath :: "nat \<Rightarrow> string \<Rightarrow> upload_file \<Rightarrow> string" where
  "storagePath now rnd f =
     (let fileExt = popLast (splitDot [] (file_name f));
          fileName = string_of_nat now @ ''-'' @ take 13 (drop 2 rnd) @ ''.'' @ fileExt
      in ''slides/'' @ fileName)"

text \<open>
  The \<open>try\<close> block of \<open>handleUpload\<close>. Its inputs from outside are \<open>Date.now()\<close>, the
  text of \<open>Math.random().toString(36)\<close>, the number of times the progress interval
  fires while the upload is awaited, and \<open>getPublicUrl\<close>. When the upload rejects,
  the source does not reach \<open>clearInterval\<close>; the firings after that are left out.
\<close>

definition upload_try ::
  "nat \<Rightarrow> string \<Rightarrow> nat \<Rightarrow> (string \<Rightarrow> string) \<Rightarrow> upload_file \<Rightarrow> upload \<Rightarrow> outcome \<times> upload" where
  "upload_try now rnd ticks getPublicUrl f s =
     (let filePath = storagePath now rnd f in
      case net (StorageUpload filePath f) s of
        (r, s1) \<Rightarrow>
          (let s2 = progressTicks ticks s1 in
           case r of
             ErrorField m j \<Rightarrow> (Throw (JsObject m j), s2)
           | Rejects t \<Rightarrow> (Throw t, s2)
           | _ \<Rightarrow>
               (let s3 = setUploadProgress 100 s2;
                    publicUrl = getPublicUrl filePath
                in case net (Insert \<lparr>ins_title = title s, ins_description = description s,
                                      ins_course_id = courseId s, ins_file_path = filePath,
                                      ins_file_url = publicUrl, ins_file_type = mime_type f,
                                      ins_file_size = byte_size f\<rparr>) s3 of
                     (ErrorField m j, s4) \<Rightarrow> (Throw (JsObject m j), s4)
                   | (Rejects t, s4) \<Rightarrow> (Throw t, s4)
                   | (_, s4) \<Rightarrow>
                       (Normal,
                        setCourseId []
                          (setDescription []
                             (setTitle []
                                (setSelectedFile None
                                   (emit (Callback publicUrl
                                            \<lparr>md_title = title s, md_description = description s,
                                             md_courseId = courseId s, md_fileName = file_name f,
                                             md_fileType = mime_type f, md_fileSize = byte_size f,
                                             md_file_path = filePath\<rparr>)
                                      (toast ''Upload successful''
                                         ''Your slide has been uploaded successfully.'' Unset
                                         s4)))))))))"

text \<open>\<open>error.message || "An error occurred during upload."\<close>\<close>

definition uploadErrorText :: "thrown \<Rightarrow> string" where
  "uploadErrorText e =
     (let message = (case e of JsError m \<Rightarrow> m | JsObject m j \<Rightarrow> m | JsOther \<Rightarrow> [])
      in if message \<noteq> [] then message else ''An error occurred during upload.'')"

definition handleUpload ::
  "nat \<Rightarrow> string \<Rightarrow> nat \<Rightarrow> (string \<Rightarrow> string) \<Rightarrow> upload \<Rightarrow> upload" where
  "handleUpload now rnd ticks getPublicUrl s =
     (case selectedFile s of
        None \<Rightarrow> toast ''No file selected'' ''Please select a file to upload.'' Destructive s
      | Some f \<Rightarrow>
          if trim (title s) = [] then
            toast ''Title required'' ''Please enter a title for your slide.'' Destructive s
          else if trim (courseId s) = [] then
            toast ''Course ID required'' ''Please enter a course ID for your slide.''
              Destructive s
          else
            (let s1 = setUploadProgress 0 (setIsUploading True s);
                 (oc, s2) = upload_try now rnd ticks getPublicUrl f s1;
                 s3 = (case oc of
                         Throw e \<Rightarrow> toast ''Upload failed'' (uploadErrorText e) Destructive s2
                       | _ \<Rightarrow> s2)
             in setIsUploading False s3))"

section \<open>Example data\<close>

text \<open>
  Two rows, a render without filters that asks for the oldest slides first, a page that
  shows the whole table, and a store evaluation that answers with the table as it is
  (which is right for a query without predicates on a table kept in the requested
  order). They are used in the examples below.
\<close>

definition slideA :: slide where
  "slideA = \<lparr>slide_id = ''a1'', slide_title = ''Apple'', slide_description = [],
     course_id = ''CS101'', file_url = ''https://cdn/slides/1.pdf'', file_path = ''slides/1.pdf'',
     file_type = ''application/pdf'', file_size = 2097152, created_at = 1\<rparr>"

definition slideB :: slide where
  "slideB = \<lparr>slide_id = ''b2'', slide_title = ''Banana'', slide_description = [],
     course_id = ''CS102'', file_url = ''https://cdn/slides/2.png'', file_path = ''slides/2.png'',
     file_type = ''image/png'', file_size = 4096, created_at = 2\<rparr>"

definition oldestFirst :: closure where
  "oldestFirst = \<lparr>supabase = True, session = True, searchQuery = [], courseFilter = [],
     fileTypeFilter = ''all'', sortOrder = ''oldest'', isLoaded_captured = False\<rparr>"

definition pageWith :: "reply list \<Rightarrow> page" where
  "pageWith rs = \<lparr>script = rs, trace = [], rows = [slideA, slideB], slides = [slideA, slideB],
     courses = [], isLoaded = False, isFetchingSlides = False, error = None, timers = []\<rparr>"

definition wholeTable :: "qop list \<Rightarrow> slide list \<Rightarrow> slide list" where
  "wholeTable q rs = rs"

definition deckPdf :: upload_file where
  "deckPdf = \<lparr>file_name = ''deck.v2.pdf'', mime_type = ''application/pdf'', byte_size = 2097152\<rparr>"

definition cdnUrl :: "string \<Rightarrow> string" where
  "cdnUrl path = ''https://cdn/'' @ path"

definition formWith :: "reply list \<Rightarrow> upload" where
  "formWith rs = \<lparr>script = rs, trace = [], selectedFile = Some deckPdf,
     title = codeUnits ''Week 1'', description = codeUnits ''Intro'', courseId = codeUnits ''CS101'',
     isUploading = False, uploadProgress = 0\<rparr>"

section \<open>Traces and replies\<close>

lemmas setters = emit_def toast_def setSlides_def setCourses_def setIsLoaded_def
  setIsFetchingSlides_def setError_def setTimeout_def

lemmas upload_setters = emit_def toast_def setSelectedFile_def setTitle_def setDescription_def
  setCourseId_def setIsUploading_def setUploadProgress_def

lemma replyAt_drop: "replyAt m (drop n rs) = replyAt (m + n) rs"
  by (simp add: replyAt_def add.commute)

lemma net_replyAt:
  "net c s = (replyAt 0 (script s), s\<lparr>script := drop 1 (script s), trace := trace s @ [Net c]\<rparr>)"
  by (cases "script s") (simp_all add: net_def emit_def replyAt_def drop_Suc)

lemma since_append [simp]: "trace s' = trace s @ tr \<Longrightarrow> since s s' = tr"
  by (simp add: since_def)

lemma netCalls_simps [simp]:
  "netCalls [] = []"
  "netCalls (e # tr) = (case e of Net c \<Rightarrow> [c] | _ \<Rightarrow> []) @ netCalls tr"
  "netCalls (tr @ tr') = netCalls tr @ netCalls tr'"
  by (simp_all add: netCalls_def)

lemma toastTitles_simps [simp]:
  "toastTitles [] = []"
  "toastTitles (e # tr) = (case e of Toast t d v \<Rightarrow> [t] | _ \<Rightarrow> []) @ toastTitles tr"
  "toastTitles (tr @ tr') = toastTitles tr @ toastTitles tr'"
  by (simp_all add: toastTitles_def)

lemma failureToasts_simps [simp]:
  "failureToasts [] = []"
  "failureToasts (e # tr) =
     (case e of Toast t d v \<Rightarrow> (if v = Destructive then [t] else []) | _ \<Rightarrow> []) @ failureToasts tr"
  "failureToasts (tr @ tr') = failureToasts tr @ failureToasts tr'"
  by (simp_all add: failureToasts_def)

lemma callbacks_simps [simp]:
  "callbacks [] = []"
  "callbacks (e # tr) = (case e of Callback u m \<Rightarrow> [(u, m)] | _ \<Rightarrow> []) @ callbacks tr"
  "callbacks (tr @ tr') = callbacks tr @ callbacks tr'"
  by (simp_all add: callbacks_def)

lemma sleeps_simps [simp]:
  "sleeps [] = []"
  "sleeps (e # tr) = (case e of Sleep n \<Rightarrow> [n] | _ \<Rightarrow> []) @ sleeps tr"
  "sleeps (tr @ tr') = sleeps tr @ sleeps tr'"
  by (simp_all add: sleeps_def)

lemma blobEvents_simps [simp]:
  "blobEvents [] = []"
  "blobEvents (e # tr) =
     (case e of Net c \<Rightarrow> (case c of StorageRemove p \<Rightarrow> [e] | _ \<Rightarrow> []) | Sleep ms \<Rightarrow> [e] | _ \<Rightarrow> [])
     @ blobEvents tr"
  "blobEvents (tr @ tr') = blobEvents tr @ blobEvents tr'"
  by (simp_all add: blobEvents_def split: event.splits call.splits)

lemma emit_fields [simp]:
  "rows (emit e s) = rows s" "slides (emit e s) = slides s" "script (emit e s) = script s"
  "timers (emit e s) = timers s" "trace (emit e s) = trace s @ [e]"
  "rows (toast t d v s) = rows s" "slides (toast t d v s) = slides s"
  "script (toast t d v s) = script s" "timers (toast t d v s) = timers s"
  "trace (toast t d v s) = trace s @ [Toast t d v]"
  by (simp_all add: emit_def toast_def)

section \<open>Properties of fetchSlides\<close>

lemmas fetchSlides_defs = fetchSlides_def fetchSlides_try_def queryPhaseCaught_def queryPhase_def
  fetchSlides_catch_def

lemma fetchCourses_cases:
  "fetchCourses cl s =
     (if isLoaded_captured cl then (Normal, s)
      else case replyAt 0 (script s) of
        ErrorField m j \<Rightarrow>
          (Return, s\<lparr>script := drop 1 (script s),
                     trace := trace s @ [Net SelectCourseIds, ConsoleError ''Error fetching course IDs:'']\<rparr>)
      | Rejects t \<Rightarrow>
          (Normal, s\<lparr>script := drop 1 (script s),
                     trace := trace s @ [Net SelectCourseIds, ConsoleError ''Error processing courses:'']\<rparr>)
      | NoData \<Rightarrow> (Normal, s\<lparr>script := drop 1 (script s), trace := trace s @ [Net SelectCourseIds]\<rparr>)
      | Success \<Rightarrow>
          (Normal, s\<lparr>script := drop 1 (script s),
                     trace := trace s @ [Net SelectCourseIds,
                                         SetCourses (uniqueInOrder (map course_id (rows s))),
                                         SetIsLoaded True],
                     courses := uniqueInOrder (map course_id (rows s)), isLoaded := True\<rparr>))"
  by (simp add: fetchCourses_def net_replyAt setters split: reply.splits)

lemma fetchSlides_trace:
  "\<exists>tr. trace (fetchSlides run cl rc s) = trace s @ tr
        \<and> set (netCalls tr) \<subseteq> {TestCount, Select (buildQuery cl), SelectCourseIds}
        \<and> sleeps tr = [] \<and> blobEvents tr = []"
  by (auto simp: blobEvents_def fetchSlides_defs fetchCourses_cases net_replyAt replyAt_drop
        setters Let_def
      split: reply.splits)

lemma fetchSlides_rows [simp]: "rows (fetchSlides run cl rc s) = rows s"
  by (auto simp: fetchSlides_defs fetchCourses_cases net_replyAt replyAt_drop setters Let_def
      split: reply.splits)

lemmas eval_page = fetchSlides_defs fetchCourses_def fireTimer_def net_def setters Let_def
  errorMessage_of_def isNetworkError_def maxRetries_def classified_def
  oldestFirst_def pageWith_def wholeTable_def replyAt_def since_def
  buildQuery_def applySearch_def applyCourse_def applyFileType_def applySort_def

text \<open>
  C9. Whatever path an invocation of \<open>fetchSlides\<close> takes (the two precondition
  returns, success, a scheduled retry or a surfaced error), it ends by setting the
  loading flag to false: the flag is false in the final state and the last event of the
  trace is that assignment.
\<close>

theorem fetchSlides_resets_loading:
  "isFetchingSlides (fetchSlides run cl retryCount s) = False
   \<and> (\<exists>tr. trace (fetchSlides run cl retryCount s) = tr @ [SetIsFetchingSlides False])"
  by (simp add: fetchSlides_def Let_def setIsFetchingSlides_def emit_def split: prod.split)

text \<open>
  C1. For a file-type filter among all, image, pdf and other and a sort order among
  newest, oldest, a-z and z-a, the query \<open>fetchSlides\<close> builds is, in this order: the
  case-insensitive pattern match of \<open>title\<close> against the search text between two
  \<open>%\<close> when the search text is not empty; the equality of \<open>course_id\<close> with the course
  filter when that is not empty; the file-type predicate (image: \<open>file_type\<close> matches
  \<open>image/%\<close>; pdf: \<open>file_type\<close> equals \<open>application/pdf\<close>; other: the negation of
  each of the two; all: none); and exactly one ordering clause, \<open>created_at\<close> descending
  for newest and ascending for oldest, \<open>title\<close> ascending for a-z and descending for
  z-a. Every main query an invocation of \<open>fetchSlides\<close> issues is this query.
\<close>

theorem fetchSlides_query_composition:
  assumes ft: "fileTypeFilter cl \<in> {''all'', ''image'', ''pdf'', ''other''}"
      and so: "sortOrder cl \<in> {''newest'', ''oldest'', ''a-z'', ''z-a''}"
  shows "buildQuery cl =
      (if searchQuery cl \<noteq> [] then [Ilike ''title'' (''%'' @ searchQuery cl @ ''%'')] else [])
    @ (if courseFilter cl \<noteq> [] then [Eq ''course_id'' (courseFilter cl)] else [])
    @ (if fileTypeFilter cl = ''image'' then [Ilike ''file_type'' ''image/%'']
       else if fileTypeFilter cl = ''pdf'' then [Eq ''file_type'' ''application/pdf'']
       else if fileTypeFilter cl = ''other'' then
         [Not ''file_type'' ''ilike'' ''image/%'', Not ''file_type'' ''eq'' ''application/pdf'']
       else [])
    @ (if sortOrder cl = ''newest'' then [Order ''created_at'' False]
       else if sortOrder cl = ''oldest'' then [Order ''created_at'' True]
       else if sortOrder cl = ''a-z'' then [Order ''title'' True]
       else [Order ''title'' False])
   \<and> (\<forall>q. Net (Select q) \<in> set (since s (fetchSlides run cl rc s)) \<longrightarrow> q = buildQuery cl)"
proof -
  obtain tr where tr: "trace (fetchSlides run cl rc s) = trace s @ tr"
      "set (netCalls tr) \<subseteq> {TestCount, Select (buildQuery cl), SelectCourseIds}"
    using fetchSlides_trace by blast
  have "q = buildQuery cl" if "Net (Select q) \<in> set tr" for q
  proof -
    from that have "Select q \<in> set (netCalls tr)"
      by (induction tr) (auto split: event.splits)
    with tr(2) show ?thesis by auto
  qed
  moreover have "since s (fetchSlides run cl rc s) = tr"
    using tr(1) by simp
  ultimately show ?thesis
    using ft so
    by (auto simp: buildQuery_def applySearch_def applyCourse_def applyFileType_def applySort_def)
qed

text \<open>
  An instance: searching for \<open>intro\<close> in course CS101 among the other files, titles
  ascending. The page issues the connectivity probe, this query and the course fetch.
\<close>

theorem fetchSlides_query_composition_witness:
  "fileTypeFilter (oldestFirst\<lparr>searchQuery := ''intro'', courseFilter := ''CS101'',
                                fileTypeFilter := ''other'', sortOrder := ''a-z''\<rparr>)
     \<in> {''all'', ''image'', ''pdf'', ''other''}
   \<and> sortOrder (oldestFirst\<lparr>searchQuery := ''intro'', courseFilter := ''CS101'',
                              fileTypeFilter := ''other'', sortOrder := ''a-z''\<rparr>)
     \<in> {''newest'', ''oldest'', ''a-z'', ''z-a''}
   \<and> buildQuery (oldestFirst\<lparr>searchQuery := ''intro'', courseFilter := ''CS101'',
                              fileTypeFilter := ''other'', sortOrder := ''a-z''\<rparr>)
     = [Ilike ''title'' ''%intro%'', Eq ''course_id'' ''CS101'',
        Not ''file_type'' ''ilike'' ''image/%'', Not ''file_type'' ''eq'' ''application/pdf'',
        Order ''title'' True]
   \<and> netCalls (since (pageWith [])
        (fetchSlides wholeTable
           (oldestFirst\<lparr>searchQuery := ''intro'', courseFilter := ''CS101'',
                         fileTypeFilter := ''other'', sortOrder := ''a-z''\<rparr>) 0 (pageWith [])))
     = [TestCount,
        Select [Ilike ''title'' ''%intro%'', Eq ''course_id'' ''CS101'',
                Not ''file_type'' ''ilike'' ''image/%'', Not ''file_type'' ''eq'' ''application/pdf'',
                Order ''title'' True],
        SelectCourseIds]"
proof -
  let ?cl = "oldestFirst\<lparr>searchQuery := ''intro'', courseFilter := ''CS101'',
                          fileTypeFilter := ''other'', sortOrder := ''a-z''\<rparr>"
  have ft: "fileTypeFilter ?cl \<in> {''all'', ''image'', ''pdf'', ''other''}"
    by simp
  have so: "sortOrder ?cl \<in> {''newest'', ''oldest'', ''a-z'', ''z-a''}"
    by simp
  have q: "buildQuery ?cl
     = [Ilike ''title'' ''%intro%'', Eq ''course_id'' ''CS101'',
        Not ''file_type'' ''ilike'' ''image/%'', Not ''file_type'' ''eq'' ''application/pdf'',
        Order ''title'' True]"
    using fetchSlides_query_composition [OF ft so, of "pageWith []" wholeTable 0]
    by (simp add: oldestFirst_def)
  have calls: "netCalls (since (pageWith []) (fetchSlides wholeTable ?cl 0 (pageWith [])))
     = [TestCount, Select (buildQuery ?cl), SelectCourseIds]"
    by (simp add: fetchSlides_defs fetchCourses_def net_def setters Let_def pageWith_def
          oldestFirst_def since_def)
  show ?thesis
    using ft so q calls by simp
qed

subsection \<open>The error handler\<close>

lemma div_1000 [simp]: "1000 * (n::nat) div 1000 = n" "(1000 + 1000 * n) div 1000 = Suc n"
  by simp_all

lemma try_throw:
  assumes "fetchSlides_try run cl s = (Throw e, s1)"
  shows "supabase cl \<and> session cl \<and> rows s1 = rows s \<and> timers s1 = timers s \<and> error s1 = None
     \<and> slides s1 = slides s \<and> isLoaded s1 = isLoaded s \<and> courses s1 = courses s
     \<and> (\<exists>tr. trace s1 = trace s @ tr \<and> toastTitles tr = [] \<and> SelectCourseIds \<notin> set (netCalls tr))"
  using assms
  by (auto simp: fetchSlides_try_def queryPhaseCaught_def queryPhase_def fetchCourses_cases
        net_replyAt setters Let_def
      split: if_splits reply.splits prod.splits outcome.splits)

lemma fetchSlides_catch_retry:
  assumes "isNetworkError (errorMessage_of e)" "rc < 2"
  shows "fetchSlides_catch cl e rc s =
     s\<lparr>trace := trace s @
            [SetSlides [], ConsoleError ''Error fetching slides:'',
             Toast ''Connection issue''
               (''Retrying in '' @ string_of_nat (rc + 1) @ '' seconds... (''
                @ string_of_nat (rc + 1) @ ''/'' @ string_of_nat 2 @ '')'') Default,
             SetTimeout (1000 * (rc + 1)) (rc + 1)],
        slides := [], timers := timers s @ [(1000 * (rc + 1), cl, rc + 1)]\<rparr>"
  using assms by (simp add: fetchSlides_catch_def maxRetries_def setters Let_def)

lemma fetchSlides_catch_surface:
  assumes "\<not> (isNetworkError (errorMessage_of e) \<and> rc < 2)"
  shows "fetchSlides_catch cl e rc s =
     s\<lparr>trace := trace s @
            [SetSlides [], ConsoleError ''Error fetching slides:'',
             SetError (Some (classified (errorMessage_of e))),
             Toast ''Error loading slides'' (errorMessage_of e) Destructive, RunDiagnostics],
        slides := [], error := Some (classified (errorMessage_of e))\<rparr>"
  using assms by (auto simp add: fetchSlides_catch_def maxRetries_def setters Let_def)

lemma fetchSlides_throw:
  assumes "fetchSlides_try run cl s = (Throw e, s1)"
  shows "fetchSlides run cl rc s = setIsFetchingSlides False (fetchSlides_catch cl e rc s1)"
  using assms by (simp add: fetchSlides_def)

lemma fetchSlides_raised_slides:
  assumes "fst (fetchSlides_try run cl s) = Throw e"
  shows "slides (fetchSlides run cl rc s) = []"
  using assms
  by (cases "fetchSlides_try run cl s")
     (simp add: fetchSlides_def fetchSlides_catch_def maxRetries_def setters Let_def)

lemma fetchSlides_success:
  assumes "supabase cl" "session cl" "\<not> failed (replyAt 0 (script s))"
      and "replyAt 1 (script s) = Success"
  shows "slides (fetchSlides run cl rc s) = run (buildQuery cl) (rows s)
       \<and> error (fetchSlides run cl rc s) = None
       \<and> timers (fetchSlides run cl rc s) = timers s
       \<and> rows (fetchSlides run cl rc s) = rows s
       \<and> isFetchingSlides (fetchSlides run cl rc s) = False
       \<and> (\<exists>tr. trace (fetchSlides run cl rc s) = trace s @ tr \<and> toastTitles tr = [])"
  using assms
  by (cases "replyAt 0 (script s)")
     (auto simp: fetchSlides_def fetchSlides_try_def queryPhaseCaught_def queryPhase_def
        fetchCourses_cases net_replyAt replyAt_drop setters Let_def split: reply.splits)

lemma fetchSlides_slides_cases:
  "slides (fetchSlides run cl rc s) = slides s \<or> slides (fetchSlides run cl rc s) = []
   \<or> slides (fetchSlides run cl rc s) = run (buildQuery cl) (rows s)"
  by (auto simp: fetchSlides_defs fetchCourses_cases net_replyAt replyAt_drop setters Let_def
      split: reply.splits)

text \<open>
  C10. When the outer \<open>try\<close> block of \<open>fetchSlides\<close> raises \<open>e\<close> (which only the query
  phase can do), the displayed collection is empty in the final state, whatever the
  error and the retry count, so also when a retry is scheduled; and the first event
  after the events of the \<open>try\<close> block is the assignment of the empty list, before
  the handler logs, notifies, schedules or sets the error.
\<close>

theorem fetchSlides_error_clears_slides:
  assumes "fst (fetchSlides_try run cl s) = Throw e"
  shows "slides (fetchSlides run cl rc s) = []
       \<and> (\<exists>rest. trace (fetchSlides run cl rc s)
             = trace (snd (fetchSlides_try run cl s)) @ SetSlides [] # rest)"
proof -
  obtain s1 where t: "fetchSlides_try run cl s = (Throw e, s1)"
    using assms by (cases "fetchSlides_try run cl s") auto
  have c: "fetchSlides run cl rc s = setIsFetchingSlides False (fetchSlides_catch cl e rc s1)"
    by (rule fetchSlides_throw [OF t])
  show ?thesis
    by (cases "isNetworkError (errorMessage_of e) \<and> rc < 2")
       (simp_all add: c t fetchSlides_catch_def maxRetries_def setters Let_def)
qed

text \<open>
  An instance: the page shows two slides and the connectivity probe fails with a
  network error on the first attempt. A retry is scheduled and the page shows no slide.
\<close>

theorem fetchSlides_error_clears_slides_witness:
  "fst (fetchSlides_try wholeTable oldestFirst
          (pageWith [ErrorField ''TypeError: Failed to fetch'' ''{}'']))
     = Throw (JsError ''Connection test failed: TypeError: Failed to fetch'')
   \<and> slides (pageWith [ErrorField ''TypeError: Failed to fetch'' ''{}'']) = [slideA, slideB]
   \<and> slides (fetchSlides wholeTable oldestFirst 0
               (pageWith [ErrorField ''TypeError: Failed to fetch'' ''{}''])) = []
   \<and> timers (fetchSlides wholeTable oldestFirst 0
               (pageWith [ErrorField ''TypeError: Failed to fetch'' ''{}'']))
       = [(1000, oldestFirst, 1)]"
proof -
  let ?s = "pageWith [ErrorField ''TypeError: Failed to fetch'' ''{}'']"
  have h: "fst (fetchSlides_try wholeTable oldestFirst ?s)
             = Throw (JsError ''Connection test failed: TypeError: Failed to fetch'')"
    by (simp add: fetchSlides_try_def queryPhaseCaught_def queryPhase_def net_def setters
          oldestFirst_def pageWith_def Let_def)
  have tm: "timers (fetchSlides wholeTable oldestFirst 0 ?s) = [(1000, oldestFirst, 1)]"
    by (simp add: fetchSlides_defs net_def setters oldestFirst_def pageWith_def Let_def
          errorMessage_of_def isNetworkError_def maxRetries_def)
  show ?thesis
    using fetchSlides_error_clears_slides [OF h, of 0] h tm by (simp add: pageWith_def)
qed

subsection \<open>Retries\<close>

lemma fetchSlides_handler:
  assumes t: "fetchSlides_try run cl s = (Throw e, s1)"
  shows "(if isNetworkError (errorMessage_of e) \<and> rc < 2 then
            since s1 (fetchSlides run cl rc s) =
              [SetSlides [], ConsoleError ''Error fetching slides:'',
               Toast ''Connection issue''
                 (''Retrying in '' @ string_of_nat (rc + 1) @ '' seconds... (''
                  @ string_of_nat (rc + 1) @ ''/'' @ string_of_nat 2 @ '')'') Default,
               SetTimeout (1000 * (rc + 1)) (rc + 1), SetIsFetchingSlides False]
          \<and> timers (fetchSlides run cl rc s) = timers s @ [(1000 * (rc + 1), cl, rc + 1)]
          \<and> error (fetchSlides run cl rc s) = None
        else
            since s1 (fetchSlides run cl rc s) =
              [SetSlides [], ConsoleError ''Error fetching slides:'',
               SetError (Some (classified (errorMessage_of e))),
               Toast ''Error loading slides'' (errorMessage_of e) Destructive,
               RunDiagnostics, SetIsFetchingSlides False]
          \<and> timers (fetchSlides run cl rc s) = timers s
          \<and> error (fetchSlides run cl rc s) = Some (classified (errorMessage_of e)))"
proof -
  note th = try_throw [OF t]
  have c: "fetchSlides run cl rc s = setIsFetchingSlides False (fetchSlides_catch cl e rc s1)"
    by (rule fetchSlides_throw [OF t])
  show ?thesis
  proof (cases "isNetworkError (errorMessage_of e) \<and> rc < 2")
    case True
    show ?thesis
      unfolding if_P [OF True] c
      using th True
      by (simp add: fetchSlides_catch_retry setIsFetchingSlides_def emit_def since_def)
  next
    case False
    show ?thesis
      unfolding if_not_P [OF False] c fetchSlides_catch_surface [OF False]
      using th by (simp add: setIsFetchingSlides_def emit_def since_def)
  qed
qed

lemma fetchSlides_retry_facts:
  assumes t: "fetchSlides_try run cl s = (Throw e, s1)"
      and n: "isNetworkError (errorMessage_of e)" and r: "rc < 2"
  shows "timers (fetchSlides run cl rc s) = timers s @ [(1000 * (rc + 1), cl, rc + 1)]"
    and "\<exists>tr. trace (fetchSlides run cl rc s) = trace s @ tr
           \<and> toastTitles tr = [''Connection issue'']"
    and "rows (fetchSlides run cl rc s) = rows s"
proof -
  note th = try_throw [OF t]
  have c: "fetchSlides run cl rc s = setIsFetchingSlides False (fetchSlides_catch cl e rc s1)"
    by (rule fetchSlides_throw [OF t])
  show "timers (fetchSlides run cl rc s) = timers s @ [(1000 * (rc + 1), cl, rc + 1)]"
    using th n r by (simp add: c fetchSlides_catch_retry setIsFetchingSlides_def emit_def)
  show "\<exists>tr. trace (fetchSlides run cl rc s) = trace s @ tr
           \<and> toastTitles tr = [''Connection issue'']"
    using th n r by (auto simp add: c fetchSlides_catch_retry setIsFetchingSlides_def emit_def)
  show "rows (fetchSlides run cl rc s) = rows s"
    by simp
qed

lemma two_retries_then_success:
  assumes t0: "timers s = []"
      and a0: "fetchSlides_try run cl s = (Throw e0, a)"
      and n0: "isNetworkError (errorMessage_of e0)"
      and a1: "fetchSlides_try run cl ((fetchSlides run cl 0 s)\<lparr>timers := []\<rparr>) = (Throw e1, b)"
      and n1: "isNetworkError (errorMessage_of e1)"
      and ok0: "\<not> failed (replyAt 0 (script (fireTimer run (fetchSlides run cl 0 s))))"
      and ok1: "replyAt 1 (script (fireTimer run (fetchSlides run cl 0 s))) = Success"
  shows "slides (fireTimer run (fireTimer run (fetchSlides run cl 0 s))) = run (buildQuery cl) (rows s)
       \<and> error (fireTimer run (fireTimer run (fetchSlides run cl 0 s))) = None
       \<and> timers (fireTimer run (fireTimer run (fetchSlides run cl 0 s))) = []
       \<and> isFetchingSlides (fireTimer run (fireTimer run (fetchSlides run cl 0 s))) = False
       \<and> toastTitles (since s (fireTimer run (fireTimer run (fetchSlides run cl 0 s))))
           = [''Connection issue'', ''Connection issue'']"
proof -
  define s1 where "s1 = fetchSlides run cl 0 s"
  define s2 where "s2 = fireTimer run s1"
  define s3 where "s3 = fireTimer run s2"
  have cl: "supabase cl" "session cl"
    using try_throw [OF a0] by simp_all
  have tm1: "timers s1 = [(1000, cl, 1)]"
    using fetchSlides_retry_facts(1) [OF a0 n0, of 0] t0 by (simp add: s1_def)
  obtain tr1 where tr1: "trace s1 = trace s @ tr1" "toastTitles tr1 = [''Connection issue'']"
    using fetchSlides_retry_facts(2) [OF a0 n0, of 0] by (auto simp: s1_def)
  have s2_eq: "s2 = fetchSlides run cl 1 (s1\<lparr>timers := []\<rparr>)"
    by (simp add: s2_def fireTimer_def tm1)
  have a1': "fetchSlides_try run cl (s1\<lparr>timers := []\<rparr>) = (Throw e1, b)"
    using a1 by (simp add: s1_def)
  have tm2: "timers s2 = [(2000, cl, 2)]"
    using fetchSlides_retry_facts(1) [OF a1' n1, of 1] by (simp add: s2_eq)
  obtain tr2 where tr2: "trace s2 = trace s1 @ tr2" "toastTitles tr2 = [''Connection issue'']"
    using fetchSlides_retry_facts(2) [OF a1' n1, of 1] by (auto simp: s2_eq)
  have rw2: "rows s2 = rows s"
    by (simp add: s2_eq s1_def)
  have s3_eq: "s3 = fetchSlides run cl 2 (s2\<lparr>timers := []\<rparr>)"
    by (simp add: s3_def fireTimer_def tm2)
  have ok: "\<not> failed (replyAt 0 (script (s2\<lparr>timers := []\<rparr>)))"
           "replyAt 1 (script (s2\<lparr>timers := []\<rparr>)) = Success"
    using ok0 ok1 by (simp_all add: s2_def s1_def)
  note fin = fetchSlides_success [OF cl ok, of run 2]
  obtain tr3 where tr3: "trace s3 = trace s2 @ tr3" "toastTitles tr3 = []"
    using fin by (auto simp: s3_eq)
  have "toastTitles (since s s3) = [''Connection issue'', ''Connection issue'']"
    using tr1 tr2 tr3 by (simp add: since_def)
  moreover have "slides s3 = run (buildQuery cl) (rows s)" "error s3 = None" "timers s3 = []"
      "isFetchingSlides s3 = False"
    using fin rw2 by (simp_all add: s3_eq)
  ultimately show ?thesis
    by (simp add: s3_def s2_def s1_def)
qed

text \<open>
  C2. When the \<open>try\<close> block of \<open>fetchSlides\<close> raises \<open>e\<close>, the handler classifies
  the error as a transient network error exactly when its message contains one of the
  markers \<open>Failed to fetch\<close>, \<open>NetworkError\<close> and \<open>connection\<close>. If it is transient
  and the retry count is below 2, the handler notifies the user of the pending retry
  and sets a timer of 1000 ms times the retry count plus one that calls \<open>fetchSlides\<close>
  with the next retry count, and sets no error. Otherwise it sets a classified message:
  the network text when the error message contains \<open>Failed to fetch\<close> or
  \<open>NetworkError\<close>, else the permission text when it contains \<open>permission\<close> or
  \<open>not allowed\<close>, else the generic text with the error message; it shows the error and
  starts the diagnostics, and sets no timer. So when the first two attempts fail with a transient
  error and the third succeeds, the page ends with the result of the query, no error,
  no pending timer, and exactly two notifications, both of a pending retry.
\<close>

theorem fetchSlides_retry_policy:
  assumes "fst (fetchSlides_try run cl s) = Throw e"
  shows "(isNetworkError (errorMessage_of e) \<longleftrightarrow>
            includes_str (errorMessage_of e) ''Failed to fetch''
          \<or> includes_str (errorMessage_of e) ''NetworkError''
          \<or> includes_str (errorMessage_of e) ''connection'')
       \<and> (if isNetworkError (errorMessage_of e) \<and> rc < 2 then
            since (snd (fetchSlides_try run cl s)) (fetchSlides run cl rc s) =
              [SetSlides [], ConsoleError ''Error fetching slides:'',
               Toast ''Connection issue''
                 (''Retrying in '' @ string_of_nat (rc + 1) @ '' seconds... (''
                  @ string_of_nat (rc + 1) @ ''/'' @ string_of_nat 2 @ '')'') Default,
               SetTimeout (1000 * (rc + 1)) (rc + 1), SetIsFetchingSlides False]
          \<and> timers (fetchSlides run cl rc s) = timers s @ [(1000 * (rc + 1), cl, rc + 1)]
          \<and> error (fetchSlides run cl rc s) = None
        else
            since (snd (fetchSlides_try run cl s)) (fetchSlides run cl rc s) =
              [SetSlides [], ConsoleError ''Error fetching slides:'',
               SetError (Some (classified (errorMessage_of e))),
               Toast ''Error loading slides'' (errorMessage_of e) Destructive,
               RunDiagnostics, SetIsFetchingSlides False]
          \<and> timers (fetchSlides run cl rc s) = timers s
          \<and> error (fetchSlides run cl rc s) = Some (classified (errorMessage_of e))
          \<and> classified (errorMessage_of e) \<in>
               {''Network connection error. Please check your internet connection and try again.'',
                ''You don't have permission to view these slides. Please check your account.'',
                ''Failed to load slides: '' @ errorMessage_of e}
          \<and> error (fetchSlides run cl rc s) = Some
               (if includes_str (errorMessage_of e) ''Failed to fetch''
                   \<or> includes_str (errorMessage_of e) ''NetworkError''
                then ''Network connection error. Please check your internet connection and try again.''
                else if includes_str (errorMessage_of e) ''permission''
                        \<or> includes_str (errorMessage_of e) ''not allowed''
                then ''You don't have permission to view these slides. Please check your account.''
                else ''Failed to load slides: '' @ errorMessage_of e))
       \<and> (timers s = [] \<and> isNetworkError (errorMessage_of e)
          \<and> (\<exists>e1. fst (fetchSlides_try run cl ((fetchSlides run cl 0 s)\<lparr>timers := []\<rparr>)) = Throw e1
                 \<and> isNetworkError (errorMessage_of e1))
          \<and> \<not> failed (replyAt 0 (script (fireTimer run (fetchSlides run cl 0 s))))
          \<and> replyAt 1 (script (fireTimer run (fetchSlides run cl 0 s))) = Success
          \<longrightarrow> slides (fireTimer run (fireTimer run (fetchSlides run cl 0 s)))
                = run (buildQuery cl) (rows s)
            \<and> error (fireTimer run (fireTimer run (fetchSlides run cl 0 s))) = None
            \<and> timers (fireTimer run (fireTimer run (fetchSlides run cl 0 s))) = []
            \<and> isFetchingSlides (fireTimer run (fireTimer run (fetchSlides run cl 0 s))) = False
            \<and> toastTitles (since s (fireTimer run (fireTimer run (fetchSlides run cl 0 s))))
                = [''Connection issue'', ''Connection issue''])"
proof -
  obtain s1 where t: "fetchSlides_try run cl s = (Throw e, s1)"
    using assms by (cases "fetchSlides_try run cl s") auto
  have s1: "snd (fetchSlides_try run cl s) = s1"
    by (simp add: t)
  have C: "classified (errorMessage_of e) \<in>
               {''Network connection error. Please check your internet connection and try again.'',
                ''You don't have permission to view these slides. Please check your account.'',
                ''Failed to load slides: '' @ errorMessage_of e}"
    by (simp add: classified_def)
  have P: "classified (errorMessage_of e) =
               (if includes_str (errorMessage_of e) ''Failed to fetch''
                   \<or> includes_str (errorMessage_of e) ''NetworkError''
                then ''Network connection error. Please check your internet connection and try again.''
                else if includes_str (errorMessage_of e) ''permission''
                        \<or> includes_str (errorMessage_of e) ''not allowed''
                then ''You don't have permission to view these slides. Please check your account.''
                else ''Failed to load slides: '' @ errorMessage_of e)"
    by (simp add: classified_def)
  show ?thesis
  proof (intro conjI)
    show "isNetworkError (errorMessage_of e) \<longleftrightarrow>
            includes_str (errorMessage_of e) ''Failed to fetch''
          \<or> includes_str (errorMessage_of e) ''NetworkError''
          \<or> includes_str (errorMessage_of e) ''connection''"
      by (simp add: isNetworkError_def)
  next
    show "if isNetworkError (errorMessage_of e) \<and> rc < 2 then
            since (snd (fetchSlides_try run cl s)) (fetchSlides run cl rc s) =
              [SetSlides [], ConsoleError ''Error fetching slides:'',
               Toast ''Connection issue''
                 (''Retrying in '' @ string_of_nat (rc + 1) @ '' seconds... (''
                  @ string_of_nat (rc + 1) @ ''/'' @ string_of_nat 2 @ '')'') Default,
               SetTimeout (1000 * (rc + 1)) (rc + 1), SetIsFetchingSlides False]
          \<and> timers (fetchSlides run cl rc s) = timers s @ [(1000 * (rc + 1), cl, rc + 1)]
          \<and> error (fetchSlides run cl rc s) = None
        else
            since (snd (fetchSlides_try run cl s)) (fetchSlides run cl rc s) =
              [SetSlides [], ConsoleError ''Error fetching slides:'',
               SetError (Some (classified (errorMessage_of e))),
               Toast ''Error loading slides'' (errorMessage_of e) Destructive,
               RunDiagnostics, SetIsFetchingSlides False]
          \<and> timers (fetchSlides run cl rc s) = timers s
          \<and> error (fetchSlides run cl rc s) = Some (classified (errorMessage_of e))
          \<and> classified (errorMessage_of e) \<in>
               {''Network connection error. Please check your internet connection and try again.'',
                ''You don't have permission to view these slides. Please check your account.'',
                ''Failed to load slides: '' @ errorMessage_of e}
          \<and> error (fetchSlides run cl rc s) = Some
               (if includes_str (errorMessage_of e) ''Failed to fetch''
                   \<or> includes_str (errorMessage_of e) ''NetworkError''
                then ''Network connection error. Please check your internet connection and try again.''
                else if includes_str (errorMessage_of e) ''permission''
                        \<or> includes_str (errorMessage_of e) ''not allowed''
                then ''You don't have permission to view these slides. Please check your account.''
                else ''Failed to load slides: '' @ errorMessage_of e)"
    proof (cases "isNetworkError (errorMessage_of e) \<and> rc < 2")
      case True
      note H = fetchSlides_handler [OF t, of rc, unfolded if_P [OF True]]
      show ?thesis
        unfolding if_P [OF True] s1 by (rule H)
    next
      case False
      note H = fetchSlides_handler [OF t, of rc, unfolded if_not_P [OF False]]
      have E: "error (fetchSlides run cl rc s) = Some (classified (errorMessage_of e))"
        using H by blast
      show ?thesis
        unfolding if_not_P [OF False] s1 P [symmetric]
        by (intro conjI) (use H C E in blast)+
    qed
  next
    show "timers s = [] \<and> isNetworkError (errorMessage_of e)
          \<and> (\<exists>e1. fst (fetchSlides_try run cl ((fetchSlides run cl 0 s)\<lparr>timers := []\<rparr>)) = Throw e1
                 \<and> isNetworkError (errorMessage_of e1))
          \<and> \<not> failed (replyAt 0 (script (fireTimer run (fetchSlides run cl 0 s))))
          \<and> replyAt 1 (script (fireTimer run (fetchSlides run cl 0 s))) = Success
          \<longrightarrow> slides (fireTimer run (fireTimer run (fetchSlides run cl 0 s)))
                = run (buildQuery cl) (rows s)
            \<and> error (fireTimer run (fireTimer run (fetchSlides run cl 0 s))) = None
            \<and> timers (fireTimer run (fireTimer run (fetchSlides run cl 0 s))) = []
            \<and> isFetchingSlides (fireTimer run (fireTimer run (fetchSlides run cl 0 s))) = False
            \<and> toastTitles (since s (fireTimer run (fireTimer run (fetchSlides run cl 0 s))))
                = [''Connection issue'', ''Connection issue'']"
    proof (intro impI, elim conjE exE)
      fix e1
      assume h: "timers s = []" "isNetworkError (errorMessage_of e)"
          "fst (fetchSlides_try run cl ((fetchSlides run cl 0 s)\<lparr>timers := []\<rparr>)) = Throw e1"
          "isNetworkError (errorMessage_of e1)"
          "\<not> failed (replyAt 0 (script (fireTimer run (fetchSlides run cl 0 s))))"
          "replyAt 1 (script (fireTimer run (fetchSlides run cl 0 s))) = Success"
      obtain b where t1:
        "fetchSlides_try run cl ((fetchSlides run cl 0 s)\<lparr>timers := []\<rparr>) = (Throw e1, b)"
        using h(3)
        by (cases "fetchSlides_try run cl ((fetchSlides run cl 0 s)\<lparr>timers := []\<rparr>)") auto
      show "slides (fireTimer run (fireTimer run (fetchSlides run cl 0 s)))
                = run (buildQuery cl) (rows s)
            \<and> error (fireTimer run (fireTimer run (fetchSlides run cl 0 s))) = None
            \<and> timers (fireTimer run (fireTimer run (fetchSlides run cl 0 s))) = []
            \<and> isFetchingSlides (fireTimer run (fireTimer run (fetchSlides run cl 0 s))) = False
            \<and> toastTitles (since s (fireTimer run (fireTimer run (fetchSlides run cl 0 s))))
                = [''Connection issue'', ''Connection issue'']"
        by (rule two_retries_then_success [OF h(1) t h(2) t1 h(4) h(5) h(6)])
    qed
  qed
qed


text \<open>
  An instance: the connectivity probe fails twice with \<open>TypeError: Failed to fetch\<close>
  and the third attempt succeeds. With the retries spent, the same failure sets the
  network text; a rejection with \<open>connection refused\<close>, which is transient but has
  neither of the two markers of the network text, sets the generic text; and a query
  answered with \<open>permission denied\<close> sets the permission text.
\<close>

theorem fetchSlides_retry_policy_witness:
  "fst (fetchSlides_try wholeTable oldestFirst
          (pageWith [ErrorField ''TypeError: Failed to fetch'' ''{}'',
                     ErrorField ''TypeError: Failed to fetch'' ''{}'']))
     = Throw (JsError ''Connection test failed: TypeError: Failed to fetch'')
   \<and> isNetworkError ''Connection test failed: TypeError: Failed to fetch''
   \<and> timers (fetchSlides wholeTable oldestFirst 0
        (pageWith [ErrorField ''TypeError: Failed to fetch'' ''{}'',
                   ErrorField ''TypeError: Failed to fetch'' ''{}'']))
       = [(1000, oldestFirst, 1)]
   \<and> toastTitles (since
        (pageWith [ErrorField ''TypeError: Failed to fetch'' ''{}'',
                   ErrorField ''TypeError: Failed to fetch'' ''{}''])
        (fetchSlides wholeTable oldestFirst 0
           (pageWith [ErrorField ''TypeError: Failed to fetch'' ''{}'',
                      ErrorField ''TypeError: Failed to fetch'' ''{}'']))) = [''Connection issue'']
   \<and> slides (fireTimer wholeTable (fireTimer wholeTable
        (fetchSlides wholeTable oldestFirst 0
           (pageWith [ErrorField ''TypeError: Failed to fetch'' ''{}'',
                      ErrorField ''TypeError: Failed to fetch'' ''{}''])))) = [slideA, slideB]
   \<and> toastTitles (since
        (pageWith [ErrorField ''TypeError: Failed to fetch'' ''{}'',
                   ErrorField ''TypeError: Failed to fetch'' ''{}''])
        (fireTimer wholeTable (fireTimer wholeTable
          (fetchSlides wholeTable oldestFirst 0
             (pageWith [ErrorField ''TypeError: Failed to fetch'' ''{}'',
                        ErrorField ''TypeError: Failed to fetch'' ''{}''])))))
       = [''Connection issue'', ''Connection issue'']
   \<and> error (fetchSlides wholeTable oldestFirst 2
        (pageWith [ErrorField ''TypeError: Failed to fetch'' ''{}'',
                   ErrorField ''TypeError: Failed to fetch'' ''{}'']))
       = Some ''Network connection error. Please check your internet connection and try again.''
   \<and> fst (fetchSlides_try wholeTable oldestFirst (pageWith [Rejects (JsError ''connection refused'')]))
       = Throw (JsError ''connection refused'')
   \<and> isNetworkError ''connection refused''
   \<and> error (fetchSlides wholeTable oldestFirst 2 (pageWith [Rejects (JsError ''connection refused'')]))
       = Some ''Failed to load slides: connection refused''
   \<and> fst (fetchSlides_try wholeTable oldestFirst
          (pageWith [Success, ErrorField ''permission denied for table slides'' ''{}'']))
       = Throw (JsError ''Database query failed: permission denied for table slides'')
   \<and> error (fetchSlides wholeTable oldestFirst 0
          (pageWith [Success, ErrorField ''permission denied for table slides'' ''{}'']))
       = Some ''You don't have permission to view these slides. Please check your account.''"
proof -
  let ?s = "pageWith [ErrorField ''TypeError: Failed to fetch'' ''{}'',
                      ErrorField ''TypeError: Failed to fetch'' ''{}'']"
  let ?e = "JsError ''Connection test failed: TypeError: Failed to fetch''"
  have h: "fst (fetchSlides_try wholeTable oldestFirst ?s) = Throw ?e"
    by (simp add: eval_page)
  have n: "isNetworkError (errorMessage_of ?e)"
    by (simp add: eval_page)
  have t0: "timers ?s = []"
    by (simp add: pageWith_def)
  have a1: "fst (fetchSlides_try wholeTable oldestFirst
                  ((fetchSlides wholeTable oldestFirst 0 ?s)\<lparr>timers := []\<rparr>)) = Throw ?e"
    by (simp add: eval_page)
  have ok: "\<not> failed (replyAt 0 (script (fireTimer wholeTable (fetchSlides wholeTable oldestFirst 0 ?s))))"
      "replyAt 1 (script (fireTimer wholeTable (fetchSlides wholeTable oldestFirst 0 ?s))) = Success"
    by (simp_all add: eval_page)
  note w = fetchSlides_retry_policy [OF h, of 0]
  have first: "timers (fetchSlides wholeTable oldestFirst 0 ?s) = [(1000, oldestFirst, 1)]"
    using w n t0 by simp
  have tt: "toastTitles (since ?s (fetchSlides wholeTable oldestFirst 0 ?s)) = [''Connection issue'']"
    by (simp add: eval_page)
  have last: "slides (fireTimer wholeTable (fireTimer wholeTable (fetchSlides wholeTable oldestFirst 0 ?s)))
                = wholeTable (buildQuery oldestFirst) (rows ?s)
            \<and> toastTitles (since ?s (fireTimer wholeTable (fireTimer wholeTable
                 (fetchSlides wholeTable oldestFirst 0 ?s))))
                = [''Connection issue'', ''Connection issue'']"
    using w n t0 a1 ok by blast
  have r: "wholeTable (buildQuery oldestFirst) (rows ?s) = [slideA, slideB]"
    by (simp add: wholeTable_def pageWith_def)
  have spent: "error (fetchSlides wholeTable oldestFirst 2 ?s)
       = Some ''Network connection error. Please check your internet connection and try again.''"
    using fetchSlides_retry_policy [OF h, of 2] by (simp add: errorMessage_of_def classified_def)
  let ?r = "pageWith [Rejects (JsError ''connection refused'')]"
  have hr: "fst (fetchSlides_try wholeTable oldestFirst ?r) = Throw (JsError ''connection refused'')"
    by (simp add: eval_page)
  have nr: "isNetworkError ''connection refused''"
    by (simp add: isNetworkError_def)
  have refused: "error (fetchSlides wholeTable oldestFirst 2 ?r)
       = Some ''Failed to load slides: connection refused''"
    using fetchSlides_retry_policy [OF hr, of 2] by (simp add: errorMessage_of_def classified_def)
  let ?p = "pageWith [Success, ErrorField ''permission denied for table slides'' ''{}'']"
  have hp: "fst (fetchSlides_try wholeTable oldestFirst ?p)
       = Throw (JsError ''Database query failed: permission denied for table slides'')"
    by (simp add: eval_page)
  have denied: "error (fetchSlides wholeTable oldestFirst 0 ?p)
       = Some ''You don't have permission to view these slides. Please check your account.''"
    using fetchSlides_retry_policy [OF hp, of 0]
    by (simp add: errorMessage_of_def isNetworkError_def classified_def)
  show ?thesis
    using h n first tt last r spent hr nr refused hp denied by (simp add: errorMessage_of_def)
qed


subsection \<open>The course identifiers\<close>

text \<open>
  C8, as the code has it. \<open>fetchSlides\<close> fetches the course identifiers exactly when
  the client and the session are there, neither the connectivity probe nor the main
  query failed, and the \<open>isLoaded\<close> flag its closure captured is false. The flag becomes
  true only when that secondary fetch resolves with data. When the secondary fetch
  resolves with an error or rejects, this is logged with \<open>console.error\<close> and nothing
  else shows it: the displayed collection is the one the main query set, no error is
  set, no toast is shown, the course list and the flag stay as they were, and the
  loading flag is false.
\<close>

theorem fetchSlides_course_ids:
  "(SelectCourseIds \<in> set (netCalls (since s (fetchSlides run cl rc s))) \<longleftrightarrow>
      (supabase cl \<and> session cl \<and> \<not> failed (replyAt 0 (script s))
       \<and> \<not> failed (replyAt 1 (script s)) \<and> \<not> isLoaded_captured cl))
   \<and> (isLoaded (fetchSlides run cl rc s) \<longleftrightarrow>
        isLoaded s \<or> (supabase cl \<and> session cl \<and> \<not> failed (replyAt 0 (script s))
           \<and> \<not> failed (replyAt 1 (script s)) \<and> \<not> isLoaded_captured cl
           \<and> replyAt 2 (script s) = Success))
   \<and> (supabase cl \<and> session cl \<and> \<not> failed (replyAt 0 (script s))
       \<and> \<not> failed (replyAt 1 (script s)) \<and> \<not> isLoaded_captured cl
       \<and> failed (replyAt 2 (script s)) \<longrightarrow>
         slides (fetchSlides run cl rc s)
           = (if replyAt 1 (script s) = Success then run (buildQuery cl) (rows s) else [])
       \<and> error (fetchSlides run cl rc s) = None
       \<and> toastTitles (since s (fetchSlides run cl rc s)) = []
       \<and> courses (fetchSlides run cl rc s) = courses s
       \<and> isFetchingSlides (fetchSlides run cl rc s) = False
       \<and> (ConsoleError ''Error fetching course IDs:'' \<in> set (since s (fetchSlides run cl rc s))
          \<or> ConsoleError ''Error processing courses:'' \<in> set (since s (fetchSlides run cl rc s))))"
  by (cases "replyAt 0 (script s)"; cases "replyAt 1 (script s)"; cases "replyAt 2 (script s)")
     (auto simp: fetchSlides_defs fetchCourses_cases net_replyAt replyAt_drop setters Let_def
        since_def numeral_2_eq_2)

text \<open>
  An instance: the first load succeeds and the secondary fetch resolves with an error.
  The two slides are shown, nothing is surfaced, and \<open>isLoaded\<close> stays false.
\<close>

theorem fetchSlides_course_ids_witness:
  "supabase oldestFirst \<and> session oldestFirst \<and> \<not> isLoaded_captured oldestFirst
   \<and> \<not> failed (replyAt 0 (script (pageWith [Success, Success, ErrorField ''timeout'' ''{}''])))
   \<and> \<not> failed (replyAt 1 (script (pageWith [Success, Success, ErrorField ''timeout'' ''{}''])))
   \<and> failed (replyAt 2 (script (pageWith [Success, Success, ErrorField ''timeout'' ''{}''])))
   \<and> SelectCourseIds \<in> set (netCalls (since (pageWith [Success, Success, ErrorField ''timeout'' ''{}''])
        (fetchSlides wholeTable oldestFirst 0
           (pageWith [Success, Success, ErrorField ''timeout'' ''{}'']))))
   \<and> slides (fetchSlides wholeTable oldestFirst 0
               (pageWith [Success, Success, ErrorField ''timeout'' ''{}''])) = [slideA, slideB]
   \<and> error (fetchSlides wholeTable oldestFirst 0
               (pageWith [Success, Success, ErrorField ''timeout'' ''{}''])) = None
   \<and> toastTitles (since (pageWith [Success, Success, ErrorField ''timeout'' ''{}''])
        (fetchSlides wholeTable oldestFirst 0
           (pageWith [Success, Success, ErrorField ''timeout'' ''{}'']))) = []
   \<and> \<not> isLoaded (fetchSlides wholeTable oldestFirst 0
               (pageWith [Success, Success, ErrorField ''timeout'' ''{}'']))"
proof -
  let ?s = "pageWith [Success, Success, ErrorField ''timeout'' ''{}'']"
  have h: "supabase oldestFirst" "session oldestFirst" "\<not> isLoaded_captured oldestFirst"
      "\<not> failed (replyAt 0 (script ?s))" "\<not> failed (replyAt 1 (script ?s))"
      "failed (replyAt 2 (script ?s))" "replyAt 1 (script ?s) = Success" "\<not> isLoaded ?s"
      "replyAt 2 (script ?s) \<noteq> Success"
    by (simp_all add: oldestFirst_def pageWith_def replyAt_def)
  have r: "wholeTable (buildQuery oldestFirst) (rows ?s) = [slideA, slideB]"
    by (simp add: wholeTable_def pageWith_def)
  show ?thesis
    using fetchSlides_course_ids [of ?s wholeTable oldestFirst 0] h r by simp
qed

text \<open>
  The claim as the spec states it fails after such a load: \<open>isLoaded\<close> is still false,
  so the next render's \<open>fetchSlides\<close>, on its successful load, fetches the course
  identifiers again. Here the first load shows both slides and issues the secondary
  fetch, which fails; the second load shows both slides and issues it again.
\<close>

theorem fetchSlides_course_ids_counterexample:
  "slides (fetchSlides wholeTable oldestFirst 0
            (pageWith [Success, Success, ErrorField ''timeout'' ''{}''])) = [slideA, slideB]
   \<and> error (fetchSlides wholeTable oldestFirst 0
            (pageWith [Success, Success, ErrorField ''timeout'' ''{}''])) = None
   \<and> netCalls (since (pageWith [Success, Success, ErrorField ''timeout'' ''{}''])
        (fetchSlides wholeTable oldestFirst 0
           (pageWith [Success, Success, ErrorField ''timeout'' ''{}''])))
       = [TestCount, Select [Order ''created_at'' True], SelectCourseIds]
   \<and> slides (fetchSlides wholeTable
        (rerender (fetchSlides wholeTable oldestFirst 0
                     (pageWith [Success, Success, ErrorField ''timeout'' ''{}''])) oldestFirst) 0
        (fetchSlides wholeTable oldestFirst 0
           (pageWith [Success, Success, ErrorField ''timeout'' ''{}'']))) = [slideA, slideB]
   \<and> netCalls (since
        (fetchSlides wholeTable oldestFirst 0
           (pageWith [Success, Success, ErrorField ''timeout'' ''{}'']))
        (fetchSlides wholeTable
           (rerender (fetchSlides wholeTable oldestFirst 0
                        (pageWith [Success, Success, ErrorField ''timeout'' ''{}''])) oldestFirst) 0
           (fetchSlides wholeTable oldestFirst 0
              (pageWith [Success, Success, ErrorField ''timeout'' ''{}'']))))
       = [TestCount, Select [Order ''created_at'' True], SelectCourseIds]"
  by (simp add: eval_page rerender_def)

section \<open>Properties of deleteSlide\<close>

lemma deleteSlide_test_ok:
  assumes "supabase cl" "\<not> failed (replyAt 0 (script s))"
  shows "deleteSlide_test cl s = (Normal, s\<lparr>script := drop 1 (script s), trace := trace s @ [Net SelectIdLimit1]\<rparr>)"
  using assms by (cases "replyAt 0 (script s)") (simp_all add: deleteSlide_test_def net_replyAt)


lemmas removeFile_unroll =
  removeFile.simps [of _ 0] removeFile.simps [of _ "Suc 0"] removeFile.simps [of _ "Suc (Suc 0)"]
  removeFile.simps [of _ "Suc (Suc (Suc 0))"]

lemma removeFile_trace:
  "\<exists>tr. trace (snd (snd (removeFile p 0 False False s))) = trace s @ tr
     \<and> toastTitles tr = [] \<and> failureToasts tr = [] \<and> set (netCalls tr) \<subseteq> {StorageRemove p}
     \<and> prefix (blobEvents tr)
          [Net (StorageRemove p), Sleep 1000, Net (StorageRemove p), Sleep 2000, Net (StorageRemove p)]"
  by (simp add: removeFile_unroll maxRetries_remove_def net_replyAt replyAt_drop emit_def
       split: reply.splits)

lemma removeFile_fields [simp]:
  "rows (snd (snd (removeFile p 0 False False s))) = rows s"
  "slides (snd (snd (removeFile p 0 False False s))) = slides s"
  "timers (snd (snd (removeFile p 0 False False s))) = timers s"
  "error (snd (snd (removeFile p 0 False False s))) = error s"
  by (simp_all add: removeFile_unroll maxRetries_remove_def net_replyAt replyAt_drop emit_def
       split: reply.splits)

lemma removeFile_all_failed:
  assumes "failed (replyAt 0 (script s))" "failed (replyAt 1 (script s))" "failed (replyAt 2 (script s))"
  shows "fst (removeFile p 0 False False s) = False"
    and "fst (snd (removeFile p 0 False False s)) = True"
    and "script (snd (snd (removeFile p 0 False False s))) = drop 3 (script s)"
    and "blobEvents (since s (snd (snd (removeFile p 0 False False s))))
          = [Net (StorageRemove p), Sleep 1000, Net (StorageRemove p), Sleep 2000, Net (StorageRemove p)]"
  using assms
  by (cases "replyAt 0 (script s)"; cases "replyAt 1 (script s)"; cases "replyAt 2 (script s)";
      simp add: removeFile_unroll maxRetries_remove_def net_replyAt replyAt_drop emit_def since_def
        numeral_2_eq_2 numeral_3_eq_3)+


lemma deleteSlide_test_outcome:
  "fst (deleteSlide_test cl s) = Normal \<or> (\<exists>e. fst (deleteSlide_test cl s) = Throw e)"
  by (simp add: deleteSlide_test_def net_replyAt split: reply.splits)

lemma deleteSlide_test_fields [simp]:
  "rows (snd (deleteSlide_test cl s)) = rows s"
  "slides (snd (deleteSlide_test cl s)) = slides s"
  "timers (snd (deleteSlide_test cl s)) = timers s"
  by (simp_all add: deleteSlide_test_def net_replyAt emit_def split: reply.splits)

lemma deleteSlide_test_Normal:
  "fst (deleteSlide_test cl s) = Normal \<longleftrightarrow> supabase cl \<and> \<not> failed (replyAt 0 (script s))"
  by (cases "replyAt 0 (script s)") (simp_all add: deleteSlide_test_def net_replyAt)

lemma deleteSlide_test_trace:
  "\<exists>tr. trace (snd (deleteSlide_test cl s)) = trace s @ tr \<and> toastTitles tr = []
     \<and> failureToasts tr = [] \<and> set (netCalls tr) \<subseteq> {SelectIdLimit1} \<and> blobEvents tr = []"
  by (simp add: deleteSlide_test_def net_replyAt emit_def split: reply.splits)

lemma optimisticRemoval_simps [simp]:
  "trace (optimisticRemoval slideId s) = trace s @
     [SetSlides (filter (\<lambda>slide. slide_id slide \<noteq> slideId) (slides s)),
      Toast ''Deleting slide...'' ''Removing the slide and associated file'' Unset]"
  "rows (optimisticRemoval slideId s) = rows s"
  "script (optimisticRemoval slideId s) = script s"
  "timers (optimisticRemoval slideId s) = timers s"
  "slides (optimisticRemoval slideId s) = filter (\<lambda>slide. slide_id slide \<noteq> slideId) (slides s)"
  by (simp_all add: optimisticRemoval_def setters)

lemma removeBlob_trace:
  "\<exists>tr. trace (snd (removeBlob p s)) = trace s @ tr
     \<and> toastTitles tr = [] \<and> failureToasts tr = [] \<and> set (netCalls tr) \<subseteq> {StorageRemove p}
     \<and> prefix (blobEvents tr)
          [Net (StorageRemove p), Sleep 1000, Net (StorageRemove p), Sleep 2000, Net (StorageRemove p)]"
proof (cases "p = []")
  case True
  then show ?thesis by (simp add: removeBlob_def)
next
  case False
  obtain tr where tr: "trace (snd (snd (removeFile p 0 False False s))) = trace s @ tr"
      "toastTitles tr = []" "failureToasts tr = []" "set (netCalls tr) \<subseteq> {StorageRemove p}"
      "prefix (blobEvents tr)
          [Net (StorageRemove p), Sleep 1000, Net (StorageRemove p), Sleep 2000, Net (StorageRemove p)]"
    using removeFile_trace [of p s] by blast
  show ?thesis
    using False tr by (auto simp: removeBlob_def emit_def split: prod.splits)
qed

lemma removeBlob_fields [simp]:
  "rows (snd (removeBlob p s)) = rows s"
  "slides (snd (removeBlob p s)) = slides s"
  "timers (snd (removeBlob p s)) = timers s"
  using removeFile_fields [of p s]
  by (cases "removeFile p 0 False False s"; simp add: removeBlob_def emit_def)+

lemma metadataStepStart_trace:
  "\<exists>tr. trace (metadataStepStart cl slideId p s) = trace s @ tr
     \<and> toastTitles tr = [''Deleting slide...''] \<and> failureToasts tr = []
     \<and> set (netCalls tr) \<subseteq> {SelectIdLimit1, StorageRemove p}
     \<and> prefix (blobEvents tr)
          [Net (StorageRemove p), Sleep 1000, Net (StorageRemove p), Sleep 2000, Net (StorageRemove p)]"
proof -
  obtain t1 where t1: "trace (snd (deleteSlide_test cl (optimisticRemoval slideId s)))
       = trace (optimisticRemoval slideId s) @ t1" "toastTitles t1 = []" "failureToasts t1 = []"
      "set (netCalls t1) \<subseteq> {SelectIdLimit1}" "blobEvents t1 = []"
    using deleteSlide_test_trace by blast
  obtain t2 where t2: "trace (metadataStepStart cl slideId p s)
       = trace (snd (deleteSlide_test cl (optimisticRemoval slideId s))) @ t2" "toastTitles t2 = []"
      "failureToasts t2 = []"
      "set (netCalls t2) \<subseteq> {StorageRemove p}"
      "prefix (blobEvents t2)
          [Net (StorageRemove p), Sleep 1000, Net (StorageRemove p), Sleep 2000, Net (StorageRemove p)]"
    unfolding metadataStepStart_def using removeBlob_trace by blast
  show ?thesis
    using t1 t2 by auto
qed

lemma metadataStepStart_fields [simp]:
  "rows (metadataStepStart cl slideId p s) = rows s"
  "slides (metadataStepStart cl slideId p s) = filter (\<lambda>slide. slide_id slide \<noteq> slideId) (slides s)"
  "timers (metadataStepStart cl slideId p s) = timers s"
  by (simp_all add: metadataStepStart_def)




subsection \<open>The metadata step\<close>

lemma deleteRecord_outcome:
  "fst (deleteRecord slideId s) = Normal \<or> (\<exists>e. fst (deleteRecord slideId s) = Throw e)"
  by (simp add: deleteRecord_def net_replyAt split: reply.splits)

lemma deleteRecord_Normal:
  "fst (deleteRecord slideId s) = Normal \<longleftrightarrow>
     (if permissionRejected (replyAt 0 (script s)) then \<not> failed (replyAt 1 (script s))
      else \<not> failed (replyAt 0 (script s)))"
  by (cases "replyAt 0 (script s)"; cases "replyAt 1 (script s)")
     (simp_all add: deleteRecord_def net_replyAt replyAt_drop emit_def)

lemma deleteRecord_trace:
  "trace (snd (deleteRecord slideId s)) = trace s @
     (if permissionRejected (replyAt 0 (script s))
      then [Net (DeleteById slideId), ConsoleWarn ''Permission error, trying alternative approach...'',
            Net (Rpc_delete_slide slideId)]
      else [Net (DeleteById slideId)])"
  by (cases "replyAt 0 (script s)"; cases "replyAt 1 (script s)")
     (simp_all add: deleteRecord_def net_replyAt replyAt_drop emit_def removeRow_def)

lemma deleteRecord_fields [simp]:
  "rows (snd (deleteRecord slideId s)) =
     (if fst (deleteRecord slideId s) = Normal then filter (\<lambda>r. slide_id r \<noteq> slideId) (rows s) else rows s)"
  "slides (snd (deleteRecord slideId s)) = slides s"
  "timers (snd (deleteRecord slideId s)) = timers s"
  "script (snd (deleteRecord slideId s)) =
     drop (if permissionRejected (replyAt 0 (script s)) then 2 else 1) (script s)"
  by (cases "replyAt 0 (script s)"; cases "replyAt 1 (script s)";
      simp add: deleteRecord_def net_replyAt replyAt_drop emit_def removeRow_def numeral_2_eq_2)+

text \<open>The three ways \<open>deleteSlide\<close> ends.\<close>

lemma deleteSlide_guard_failed:
  assumes "fst (deleteSlide_test cl (optimisticRemoval slideId s)) \<noteq> Normal"
  shows "deleteSlide run cl slideId filePath s =
     fetchSlides run cl 0
       (toast ''Connection Error'' ''Could not connect to database. Please try again later.''
          Destructive
          (emit (ConsoleError ''Test query failed:'')
             (snd (deleteSlide_test cl (optimisticRemoval slideId s)))))"
  using assms deleteSlide_test_outcome [of cl "optimisticRemoval slideId s"]
  by (auto simp: deleteSlide_def deleteSlide_body_def split: prod.splits)

lemma deleteSlide_record_failed:
  assumes "fst (deleteSlide_test cl (optimisticRemoval slideId s)) = Normal"
      and "fst (deleteRecord slideId (metadataStepStart cl slideId filePath s)) = Throw dbError"
  shows "deleteSlide run cl slideId filePath s =
     emit RunDiagnostics
       (fetchSlides run cl 0
          (toast ''Error deleting slide''
             (case dbError of JsError m \<Rightarrow> m | _ \<Rightarrow> ''Failed to delete slide from database.'')
             Destructive
             (emit (ConsoleError ''Error deleting slide from database:'')
                (snd (deleteRecord slideId (metadataStepStart cl slideId filePath s))))))"
  using assms
  by (auto simp: deleteSlide_def deleteSlide_body_def metadataStepStart_def split: prod.splits)

lemma deleteSlide_confirmed:
  assumes "fst (deleteSlide_test cl (optimisticRemoval slideId s)) = Normal"
      and "fst (deleteRecord slideId (metadataStepStart cl slideId filePath s)) = Normal"
  shows "deleteSlide run cl slideId filePath s =
     toast ''Slide deleted''
       (if fst (removeBlob filePath (snd (deleteSlide_test cl (optimisticRemoval slideId s))))
        then ''The slide and file have been successfully deleted.''
        else ''The slide has been deleted but there may have been an issue removing the file.'')
       Unset
       (fetchSlides run cl 0 (snd (deleteRecord slideId (metadataStepStart cl slideId filePath s))))"
  using assms
  by (auto simp: deleteSlide_def deleteSlide_body_def metadataStepStart_def split: prod.splits)



lemma deleteSlide_metadata_step:
  assumes sb: "supabase cl" and g: "\<not> failed (replyAt 0 (script s))"
  shows "\<exists>post. trace (deleteSlide run cl slideId filePath s)
           = trace (metadataStepStart cl slideId filePath s)
             @ (if permissionRejected (replyAt 0 (script (metadataStepStart cl slideId filePath s)))
                then [Net (DeleteById slideId),
                      ConsoleWarn ''Permission error, trying alternative approach...'',
                      Net (Rpc_delete_slide slideId)]
                else [Net (DeleteById slideId)])
             @ post
         \<and> set (netCalls post) \<subseteq> {TestCount, Select (buildQuery cl), SelectCourseIds}
         \<and> blobEvents post = []"
proof -
  let ?s3 = "metadataStepStart cl slideId filePath s"
  have guard: "fst (deleteSlide_test cl (optimisticRemoval slideId s)) = Normal"
    using sb g by (simp add: deleteSlide_test_Normal)
  show ?thesis
  proof (cases "fst (deleteRecord slideId ?s3) = Normal")
    case True
    obtain trF where trF:
      "trace (fetchSlides run cl 0 (snd (deleteRecord slideId ?s3)))
         = trace (snd (deleteRecord slideId ?s3)) @ trF"
      "set (netCalls trF) \<subseteq> {TestCount, Select (buildQuery cl), SelectCourseIds}"
      "blobEvents trF = []"
      using fetchSlides_trace by blast
    show ?thesis
      using trF by (simp add: deleteSlide_confirmed [OF guard True] toast_def emit_def deleteRecord_trace)
  next
    case False
    then obtain dbError where thr: "fst (deleteRecord slideId ?s3) = Throw dbError"
      using deleteRecord_outcome by blast
    let ?m = "toast ''Error deleting slide''
             (case dbError of JsError m \<Rightarrow> m | _ \<Rightarrow> ''Failed to delete slide from database.'')
             Destructive
             (emit (ConsoleError ''Error deleting slide from database:'')
                (snd (deleteRecord slideId ?s3)))"
    obtain trF where trF:
      "trace (fetchSlides run cl 0 ?m) = trace ?m @ trF"
      "set (netCalls trF) \<subseteq> {TestCount, Select (buildQuery cl), SelectCourseIds}"
      "blobEvents trF = []"
      using fetchSlides_trace by blast
    show ?thesis
      using trF by (simp add: deleteSlide_record_failed [OF guard thr] toast_def emit_def deleteRecord_trace)
  qed
qed


lemma refetchStart_alt:
  "refetchStart cl slideId filePath s =
     (case fst (deleteSlide_test cl (optimisticRemoval slideId s)) of
        Throw testError \<Rightarrow>
          toast ''Connection Error'' ''Could not connect to database. Please try again later.''
            Destructive
            (emit (ConsoleError ''Test query failed:'')
               (snd (deleteSlide_test cl (optimisticRemoval slideId s))))
      | _ \<Rightarrow>
          (case fst (deleteRecord slideId (metadataStepStart cl slideId filePath s)) of
             Throw dbError \<Rightarrow>
               toast ''Error deleting slide''
                 (case dbError of JsError m \<Rightarrow> m
                  | _ \<Rightarrow> ''Failed to delete slide from database.'')
                 Destructive
                 (emit (ConsoleError ''Error deleting slide from database:'')
                    (snd (deleteRecord slideId (metadataStepStart cl slideId filePath s))))
           | _ \<Rightarrow> snd (deleteRecord slideId (metadataStepStart cl slideId filePath s))))"
  by (simp add: refetchStart_def metadataStepStart_def case_prod_beta split: outcome.split)

lemma deleteSlide_refetch:
  "deleteSlide run cl slideId filePath s =
     (if fst (deleteSlide_test cl (optimisticRemoval slideId s)) \<noteq> Normal then
        fetchSlides run cl 0 (refetchStart cl slideId filePath s)
      else if fst (deleteRecord slideId (metadataStepStart cl slideId filePath s)) \<noteq> Normal then
        emit RunDiagnostics (fetchSlides run cl 0 (refetchStart cl slideId filePath s))
      else
        toast ''Slide deleted''
          (if fst (removeBlob filePath (snd (deleteSlide_test cl (optimisticRemoval slideId s))))
           then ''The slide and file have been successfully deleted.''
           else ''The slide has been deleted but there may have been an issue removing the file.'')
          Unset
          (fetchSlides run cl 0 (refetchStart cl slideId filePath s)))"
proof (cases "fst (deleteSlide_test cl (optimisticRemoval slideId s)) = Normal")
  case False
  then obtain e where e: "fst (deleteSlide_test cl (optimisticRemoval slideId s)) = Throw e"
    using deleteSlide_test_outcome by blast
  show ?thesis
    using False by (simp add: deleteSlide_guard_failed [OF False] refetchStart_alt e)
next
  case True
  show ?thesis
  proof (cases "fst (deleteRecord slideId (metadataStepStart cl slideId filePath s)) = Normal")
    case rec: True
    show ?thesis
      using True rec by (simp add: deleteSlide_confirmed [OF True rec] refetchStart_alt)
  next
    case False
    then obtain dbError
      where thr: "fst (deleteRecord slideId (metadataStepStart cl slideId filePath s)) = Throw dbError"
      using deleteRecord_outcome by blast
    show ?thesis
      using True False by (simp add: deleteSlide_record_failed [OF True thr] refetchStart_alt thr)
  qed
qed

lemma refetchStart_unconfirmed:
  assumes "\<not> deletionConfirmed cl slideId filePath s"
  shows "rows (refetchStart cl slideId filePath s) = rows s"
    and "prefix (trace s) (trace (refetchStart cl slideId filePath s))"
proof -
  obtain t1 where t1: "trace (snd (deleteSlide_test cl (optimisticRemoval slideId s)))
       = trace (optimisticRemoval slideId s) @ t1"
    using deleteSlide_test_trace by blast
  obtain tr3 where tr3: "trace (metadataStepStart cl slideId filePath s) = trace s @ tr3"
    using metadataStepStart_trace by blast
  have r: "fst (deleteSlide_test cl (optimisticRemoval slideId s)) = Normal \<Longrightarrow>
         fst (deleteRecord slideId (metadataStepStart cl slideId filePath s)) \<noteq> Normal"
    using assms by (simp add: deletionConfirmed_def)
  show "rows (refetchStart cl slideId filePath s) = rows s"
    using r deleteSlide_test_outcome [of cl "optimisticRemoval slideId s"]
      deleteRecord_outcome [of slideId "metadataStepStart cl slideId filePath s"]
    by (auto simp: refetchStart_alt)
  show "prefix (trace s) (trace (refetchStart cl slideId filePath s))"
    using t1 tr3 deleteSlide_test_outcome [of cl "optimisticRemoval slideId s"]
      deleteRecord_outcome [of slideId "metadataStepStart cl slideId filePath s"]
    by (auto simp: refetchStart_alt deleteRecord_trace)
qed


lemmas eval_delete = deleteSlide_def deleteSlide_body_def deleteSlide_test_def removeBlob_def
  removeFile_unroll maxRetries_remove_def deleteRecord_def removeRow_def optimisticRemoval_def
  metadataStepStart_def deletionConfirmed_def refetchStart_def slideA_def slideB_def

text \<open>
  C5. When the guard lets \<open>deleteSlide\<close> through, the metadata step starts with the
  delete of the record by its identifier, and the remote procedure \<open>delete_slide\<close> is
  called, with the identifier of the slide, if and only if the reply to that delete
  carries an error whose message contains \<open>permission\<close> or \<open>policy\<close>. The call then
  follows the rejected delete at once, and no failure has been shown before it.
\<close>

theorem deleteSlide_privileged_fallback:
  assumes sb: "supabase cl" and g: "\<not> failed (replyAt 0 (script s))"
  shows "(\<exists>post. since (metadataStepStart cl slideId filePath s) (deleteSlide run cl slideId filePath s)
             = Net (DeleteById slideId) # post)
       \<and> (Rpc_delete_slide slideId \<in> set (netCalls (since s (deleteSlide run cl slideId filePath s)))
            \<longleftrightarrow> permissionRejected (replyAt 0 (script (metadataStepStart cl slideId filePath s))))
       \<and> (\<forall>x. Rpc_delete_slide x \<in> set (netCalls (since s (deleteSlide run cl slideId filePath s)))
            \<longrightarrow> x = slideId)
       \<and> (permissionRejected (replyAt 0 (script (metadataStepStart cl slideId filePath s))) \<longrightarrow>
            (\<exists>post. since (metadataStepStart cl slideId filePath s) (deleteSlide run cl slideId filePath s)
               = [Net (DeleteById slideId),
                  ConsoleWarn ''Permission error, trying alternative approach...'',
                  Net (Rpc_delete_slide slideId)] @ post)
            \<and> failureToasts (since s (metadataStepStart cl slideId filePath s)) = [])"
proof -
  obtain tr3 where tr3: "trace (metadataStepStart cl slideId filePath s) = trace s @ tr3"
      "failureToasts tr3 = []" "set (netCalls tr3) \<subseteq> {SelectIdLimit1, StorageRemove filePath}"
    using metadataStepStart_trace by blast
  obtain post where post: "trace (deleteSlide run cl slideId filePath s)
           = trace (metadataStepStart cl slideId filePath s)
             @ (if permissionRejected (replyAt 0 (script (metadataStepStart cl slideId filePath s)))
                then [Net (DeleteById slideId),
                      ConsoleWarn ''Permission error, trying alternative approach...'',
                      Net (Rpc_delete_slide slideId)]
                else [Net (DeleteById slideId)])
             @ post"
         "set (netCalls post) \<subseteq> {TestCount, Select (buildQuery cl), SelectCourseIds}"
    using deleteSlide_metadata_step [OF sb g] by blast
  show ?thesis
    using tr3 post by (auto simp: since_def)
qed


text \<open>
  An instance: the blob is removed, the delete is answered with \<open>permission denied\<close>,
  and the remote procedure deletes the record.
\<close>

theorem deleteSlide_privileged_fallback_witness:
  "supabase oldestFirst
   \<and> \<not> failed (replyAt 0 (script (pageWith
          [Success, Success, ErrorField ''permission denied for table slides'' ''{}''])))
   \<and> permissionRejected (replyAt 0 (script (metadataStepStart oldestFirst ''a1'' ''slides/1.pdf''
          (pageWith [Success, Success, ErrorField ''permission denied for table slides'' ''{}'']))))
   \<and> Rpc_delete_slide ''a1'' \<in> set (netCalls (since
          (pageWith [Success, Success, ErrorField ''permission denied for table slides'' ''{}''])
          (deleteSlide wholeTable oldestFirst ''a1'' ''slides/1.pdf''
             (pageWith [Success, Success, ErrorField ''permission denied for table slides'' ''{}'']))))
   \<and> netCalls (since
          (pageWith [Success, Success, ErrorField ''permission denied for table slides'' ''{}''])
          (deleteSlide wholeTable oldestFirst ''a1'' ''slides/1.pdf''
             (pageWith [Success, Success, ErrorField ''permission denied for table slides'' ''{}''])))
       = [SelectIdLimit1, StorageRemove ''slides/1.pdf'', DeleteById ''a1'', Rpc_delete_slide ''a1'',
          TestCount, Select [Order ''created_at'' True], SelectCourseIds]
   \<and> slides (deleteSlide wholeTable oldestFirst ''a1'' ''slides/1.pdf''
          (pageWith [Success, Success, ErrorField ''permission denied for table slides'' ''{}'']))
       = [slideB]"
proof -
  let ?s = "pageWith [Success, Success, ErrorField ''permission denied for table slides'' ''{}'']"
  have h: "supabase oldestFirst" "\<not> failed (replyAt 0 (script ?s))"
    by (simp_all add: oldestFirst_def pageWith_def replyAt_def)
  have p: "permissionRejected (replyAt 0 (script (metadataStepStart oldestFirst ''a1'' ''slides/1.pdf'' ?s)))"
    by (simp add: eval_delete eval_page)
  have rest: "netCalls (since ?s (deleteSlide wholeTable oldestFirst ''a1'' ''slides/1.pdf'' ?s))
       = [SelectIdLimit1, StorageRemove ''slides/1.pdf'', DeleteById ''a1'', Rpc_delete_slide ''a1'',
          TestCount, Select [Order ''created_at'' True], SelectCourseIds]"
      "slides (deleteSlide wholeTable oldestFirst ''a1'' ''slides/1.pdf'' ?s) = [slideB]"
    by (simp_all add: eval_delete eval_page)
  show ?thesis
    using deleteSlide_privileged_fallback [OF h, of "''a1''" "''slides/1.pdf''" wholeTable] h p rest
    by blast
qed

subsection \<open>Unconfirmed deletions\<close>

text \<open>
  C3, as the code has it. Every path of \<open>deleteSlide\<close> that does not end in a confirmed
  deletion of the metadata record calls \<open>fetchSlides\<close> once, with retry count 0, as its
  last step but for the start of the diagnostics, and leaves the remote table as it
  was. When that refetch succeeds, the displayed collection is the result of the query
  on the unchanged table, so it has the identifiers it had before the delete if the
  page was in step with the table then. When that refetch raises, the displayed
  collection is empty.
\<close>

theorem deleteSlide_unconfirmed_refetch:
  assumes nc: "\<not> deletionConfirmed cl slideId filePath s"
  shows "(deleteSlide run cl slideId filePath s
            = fetchSlides run cl 0 (refetchStart cl slideId filePath s)
          \<or> deleteSlide run cl slideId filePath s
            = emit RunDiagnostics (fetchSlides run cl 0 (refetchStart cl slideId filePath s)))
       \<and> rows (refetchStart cl slideId filePath s) = rows s
       \<and> prefix (trace s) (trace (refetchStart cl slideId filePath s))
       \<and> rows (deleteSlide run cl slideId filePath s) = rows s
       \<and> (supabase cl \<and> session cl
          \<and> \<not> failed (replyAt 0 (script (refetchStart cl slideId filePath s)))
          \<and> replyAt 1 (script (refetchStart cl slideId filePath s)) = Success
          \<longrightarrow> slides (deleteSlide run cl slideId filePath s) = run (buildQuery cl) (rows s)
            \<and> (slides s = run (buildQuery cl) (rows s) \<longrightarrow>
                 slide_id ` set (slides (deleteSlide run cl slideId filePath s))
                   = slide_id ` set (slides s)))
       \<and> ((\<exists>e. fst (fetchSlides_try run cl (refetchStart cl slideId filePath s)) = Throw e)
          \<longrightarrow> slides (deleteSlide run cl slideId filePath s) = [])"
proof -
  let ?m = "refetchStart cl slideId filePath s"
  have shape: "deleteSlide run cl slideId filePath s = fetchSlides run cl 0 ?m
       \<or> deleteSlide run cl slideId filePath s = emit RunDiagnostics (fetchSlides run cl 0 ?m)"
    using nc by (auto simp: deleteSlide_refetch [of run cl slideId filePath s] deletionConfirmed_def)
  have sl: "slides (deleteSlide run cl slideId filePath s) = slides (fetchSlides run cl 0 ?m)"
    using shape by auto
  have rw: "rows (deleteSlide run cl slideId filePath s) = rows ?m"
    using shape by auto
  note m = refetchStart_unconfirmed [OF nc]
  have ok: "slides (fetchSlides run cl 0 ?m) = run (buildQuery cl) (rows s)"
    if "supabase cl" "session cl" "\<not> failed (replyAt 0 (script ?m))" "replyAt 1 (script ?m) = Success"
    using fetchSlides_success [OF that, of run 0] m(1) by simp
  have bad: "slides (fetchSlides run cl 0 ?m) = []"
    if "fst (fetchSlides_try run cl ?m) = Throw e" for e
    using that by (rule fetchSlides_raised_slides)
  show ?thesis
    using shape m ok bad by (auto simp: sl rw)
qed

text \<open>
  An instance: the delete is answered with \<open>JWT expired\<close> and the refetch succeeds. The
  page shows both slides again.
\<close>

theorem deleteSlide_unconfirmed_refetch_witness:
  "\<not> deletionConfirmed oldestFirst ''a1'' [] (pageWith [Success, ErrorField ''JWT expired'' ''{}''])
   \<and> supabase oldestFirst \<and> session oldestFirst
   \<and> \<not> failed (replyAt 0 (script (refetchStart oldestFirst ''a1'' []
          (pageWith [Success, ErrorField ''JWT expired'' ''{}'']))))
   \<and> replyAt 1 (script (refetchStart oldestFirst ''a1'' []
          (pageWith [Success, ErrorField ''JWT expired'' ''{}'']))) = Success
   \<and> slides (deleteSlide wholeTable oldestFirst ''a1'' []
          (pageWith [Success, ErrorField ''JWT expired'' ''{}''])) = [slideA, slideB]
   \<and> rows (deleteSlide wholeTable oldestFirst ''a1'' []
          (pageWith [Success, ErrorField ''JWT expired'' ''{}''])) = [slideA, slideB]"
proof -
  let ?s = "pageWith [Success, ErrorField ''JWT expired'' ''{}'']"
  have nc: "\<not> deletionConfirmed oldestFirst ''a1'' [] ?s"
    by (simp add: eval_delete eval_page)
  have h: "supabase oldestFirst" "session oldestFirst"
      "\<not> failed (replyAt 0 (script (refetchStart oldestFirst ''a1'' [] ?s)))"
      "replyAt 1 (script (refetchStart oldestFirst ''a1'' [] ?s)) = Success"
    by (simp_all add: eval_delete eval_page)
  have r: "wholeTable (buildQuery oldestFirst) (rows ?s) = [slideA, slideB]" "rows ?s = [slideA, slideB]"
    by (simp_all add: wholeTable_def pageWith_def)
  show ?thesis
    using deleteSlide_unconfirmed_refetch [OF nc, of wholeTable] nc h r by simp
qed

text \<open>
  The claim as the spec states it fails when the refetch fails too. Here the session
  has expired: the delete and then the connectivity probe of the refetch are answered
  with \<open>JWT expired\<close>. The deletion is not confirmed and the table still has both rows,
  but the page shows no slide, and no retry is pending that would fetch again.
\<close>

theorem deleteSlide_refetch_fails_counterexample:
  "\<not> deletionConfirmed oldestFirst ''a1'' []
        (pageWith [Success, ErrorField ''JWT expired'' ''{}'', ErrorField ''JWT expired'' ''{}''])
   \<and> rows (pageWith [Success, ErrorField ''JWT expired'' ''{}'', ErrorField ''JWT expired'' ''{}''])
       = [slideA, slideB]
   \<and> slides (pageWith [Success, ErrorField ''JWT expired'' ''{}'', ErrorField ''JWT expired'' ''{}''])
       = [slideA, slideB]
   \<and> rows (deleteSlide wholeTable oldestFirst ''a1'' []
        (pageWith [Success, ErrorField ''JWT expired'' ''{}'', ErrorField ''JWT expired'' ''{}'']))
       = [slideA, slideB]
   \<and> slides (deleteSlide wholeTable oldestFirst ''a1'' []
        (pageWith [Success, ErrorField ''JWT expired'' ''{}'', ErrorField ''JWT expired'' ''{}'']))
       = []
   \<and> timers (deleteSlide wholeTable oldestFirst ''a1'' []
        (pageWith [Success, ErrorField ''JWT expired'' ''{}'', ErrorField ''JWT expired'' ''{}'']))
       = []
   \<and> slide_id ` set (slides (deleteSlide wholeTable oldestFirst ''a1'' []
        (pageWith [Success, ErrorField ''JWT expired'' ''{}'', ErrorField ''JWT expired'' ''{}''])))
       \<noteq> slide_id ` set (rows
        (pageWith [Success, ErrorField ''JWT expired'' ''{}'', ErrorField ''JWT expired'' ''{}'']))"
  by (simp add: eval_delete eval_page)

subsection \<open>The blob step\<close>

lemma removeBlob_all_failed:
  assumes p: "p \<noteq> []"
      and f: "failed (replyAt 0 (script s))" "failed (replyAt 1 (script s))" "failed (replyAt 2 (script s))"
  shows "fst (removeBlob p s) = False"
    and "script (snd (removeBlob p s)) = drop 3 (script s)"
    and "blobEvents (since s (snd (removeBlob p s)))
          = [Net (StorageRemove p), Sleep 1000, Net (StorageRemove p), Sleep 2000, Net (StorageRemove p)]"
proof -
  obtain ok err b where r: "removeFile p 0 False False s = (ok, err, b)"
    by (cases "removeFile p 0 False False s") auto
  note af = removeFile_all_failed [OF f, of p, unfolded r, simplified]
  obtain tr where tr: "trace b = trace s @ tr"
    using removeFile_trace [of p s] r by auto
  have b: "blobEvents tr = [Net (StorageRemove p), Sleep 1000, Net (StorageRemove p), Sleep 2000, Net (StorageRemove p)]"
    using af(4) tr by simp
  show "fst (removeBlob p s) = False"
    using p af by (simp add: removeBlob_def r)
  show "script (snd (removeBlob p s)) = drop 3 (script s)"
    using p af by (simp add: removeBlob_def r)
  show "blobEvents (since s (snd (removeBlob p s)))
          = [Net (StorageRemove p), Sleep 1000, Net (StorageRemove p), Sleep 2000, Net (StorageRemove p)]"
    using p af tr b by (simp add: removeBlob_def r since_def)
qed

lemma deleteSlide_blobEvents:
  "prefix (blobEvents (since s (deleteSlide run cl slideId filePath s)))
     [Net (StorageRemove filePath), Sleep 1000, Net (StorageRemove filePath), Sleep 2000,
      Net (StorageRemove filePath)]"
proof (cases "fst (deleteSlide_test cl (optimisticRemoval slideId s)) = Normal")
  case False
  let ?m = "toast ''Connection Error'' ''Could not connect to database. Please try again later.''
          Destructive
          (emit (ConsoleError ''Test query failed:'')
             (snd (deleteSlide_test cl (optimisticRemoval slideId s))))"
  obtain t1 where t1: "trace (snd (deleteSlide_test cl (optimisticRemoval slideId s)))
       = trace (optimisticRemoval slideId s) @ t1" "blobEvents t1 = []"
    using deleteSlide_test_trace by blast
  obtain trF where trF: "trace (fetchSlides run cl 0 ?m) = trace ?m @ trF" "blobEvents trF = []"
    using fetchSlides_trace by blast
  show ?thesis
    using t1 trF by (simp add: deleteSlide_guard_failed [OF False] since_def)
next
  case True
  then have g: "supabase cl" "\<not> failed (replyAt 0 (script s))"
    by (simp_all add: deleteSlide_test_Normal)
  obtain tr3 where tr3: "trace (metadataStepStart cl slideId filePath s) = trace s @ tr3"
     "prefix (blobEvents tr3)
          [Net (StorageRemove filePath), Sleep 1000, Net (StorageRemove filePath), Sleep 2000,
           Net (StorageRemove filePath)]"
    using metadataStepStart_trace by blast
  obtain post where post: "trace (deleteSlide run cl slideId filePath s)
           = trace (metadataStepStart cl slideId filePath s)
             @ (if permissionRejected (replyAt 0 (script (metadataStepStart cl slideId filePath s)))
                then [Net (DeleteById slideId),
                      ConsoleWarn ''Permission error, trying alternative approach...'',
                      Net (Rpc_delete_slide slideId)]
                else [Net (DeleteById slideId)])
             @ post"
         "blobEvents post = []"
    using deleteSlide_metadata_step [OF g] by blast
  show ?thesis
    using tr3 post by (simp add: since_def)
qed

lemma deleteSlide_all_removals_failed:
  assumes sb: "supabase cl" and p: "filePath \<noteq> []"
      and g: "\<not> failed (replyAt 0 (script s))"
      and f: "failed (replyAt 1 (script s))" "failed (replyAt 2 (script s))" "failed (replyAt 3 (script s))"
  shows "blobEvents (since s (deleteSlide run cl slideId filePath s))
           = [Net (StorageRemove filePath), Sleep 1000, Net (StorageRemove filePath), Sleep 2000,
              Net (StorageRemove filePath)]"
    and "DeleteById slideId \<in> set (netCalls (since s (deleteSlide run cl slideId filePath s)))"
    and "deletionConfirmed cl slideId filePath s \<Longrightarrow> (\<forall>q rs. set (run q rs) \<subseteq> set rs) \<Longrightarrow>
           slideId \<notin> slide_id ` set (slides (deleteSlide run cl slideId filePath s))
         \<and> slideId \<notin> slide_id ` set (rows (deleteSlide run cl slideId filePath s))
         \<and> (\<exists>pre. since s (deleteSlide run cl slideId filePath s) = pre @
               [Toast ''Slide deleted''
                  ''The slide has been deleted but there may have been an issue removing the file.''
                  Unset])"
proof -
  let ?s1 = "optimisticRemoval slideId s"
  let ?s2 = "snd (deleteSlide_test cl ?s1)"
  let ?s3 = "metadataStepStart cl slideId filePath s"
  let ?s' = "deleteSlide run cl slideId filePath s"
  have guard: "fst (deleteSlide_test cl ?s1) = Normal"
    using sb g by (simp add: deleteSlide_test_Normal)
  have s2: "?s2 = ?s1\<lparr>script := drop 1 (script s), trace := trace ?s1 @ [Net SelectIdLimit1]\<rparr>"
    using deleteSlide_test_ok [of cl ?s1] sb g by simp
  have f2: "failed (replyAt 0 (script ?s2))" "failed (replyAt 1 (script ?s2))" "failed (replyAt 2 (script ?s2))"
    using f by (simp_all add: s2 replyAt_drop numeral_2_eq_2 numeral_3_eq_3)
  note rb = removeBlob_all_failed [OF p f2]
  obtain trB where trB: "trace (snd (removeBlob filePath ?s2)) = trace ?s2 @ trB"
    using removeBlob_trace by blast
  have bB: "blobEvents trB = [Net (StorageRemove filePath), Sleep 1000, Net (StorageRemove filePath), Sleep 2000,
              Net (StorageRemove filePath)]"
    using rb(3) trB by simp
  have tr3: "trace ?s3 = trace s @
       [SetSlides (filter (\<lambda>slide. slide_id slide \<noteq> slideId) (slides s)),
        Toast ''Deleting slide...'' ''Removing the slide and associated file'' Unset,
        Net SelectIdLimit1] @ trB"
    using trB by (simp add: metadataStepStart_def s2)
  obtain post where post: "trace ?s' = trace ?s3
             @ (if permissionRejected (replyAt 0 (script ?s3))
                then [Net (DeleteById slideId),
                      ConsoleWarn ''Permission error, trying alternative approach...'',
                      Net (Rpc_delete_slide slideId)]
                else [Net (DeleteById slideId)])
             @ post"
         "blobEvents post = []"
    using deleteSlide_metadata_step [OF sb g] by blast
  show "blobEvents (since s ?s') = [Net (StorageRemove filePath), Sleep 1000, Net (StorageRemove filePath), Sleep 2000,
              Net (StorageRemove filePath)]"
    using post bB by (simp add: tr3 since_def)
  show "DeleteById slideId \<in> set (netCalls (since s ?s'))"
    using post by (simp add: tr3 since_def)
  show "slideId \<notin> slide_id ` set (slides ?s') \<and> slideId \<notin> slide_id ` set (rows ?s')
         \<and> (\<exists>pre. since s ?s' = pre @
               [Toast ''Slide deleted''
                  ''The slide has been deleted but there may have been an issue removing the file.''
                  Unset])"
    if dc: "deletionConfirmed cl slideId filePath s" and sub: "\<forall>q rs. set (run q rs) \<subseteq> set rs"
  proof -
    have rec: "fst (deleteRecord slideId ?s3) = Normal"
      using dc by (simp add: deletionConfirmed_def)
    let ?m = "snd (deleteRecord slideId ?s3)"
    have eq: "?s' = toast ''Slide deleted''
         ''The slide has been deleted but there may have been an issue removing the file.'' Unset
         (fetchSlides run cl 0 ?m)"
      using deleteSlide_confirmed [OF guard rec, of run] rb(1) by simp
    have rm: "rows ?m = filter (\<lambda>r. slide_id r \<noteq> slideId) (rows s)"
      using rec by simp
    have sm: "slides ?m = filter (\<lambda>slide. slide_id slide \<noteq> slideId) (slides s)"
      by simp
    have "set (run (buildQuery cl) (rows ?m)) \<subseteq> set (rows ?m)"
      using sub by blast
    then have a: "slideId \<notin> slide_id ` set (slides (fetchSlides run cl 0 ?m))"
      using fetchSlides_slides_cases [of run cl 0 ?m] rm sm by auto
    have b: "slideId \<notin> slide_id ` set (rows (fetchSlides run cl 0 ?m))"
      using rm by auto
    obtain trF where trF: "trace (fetchSlides run cl 0 ?m) = trace ?m @ trF"
      using fetchSlides_trace by blast
    obtain tr3' where tr3': "trace ?s3 = trace s @ tr3'"
      using tr3 by blast
    have c: "\<exists>pre. since s ?s' = pre @
               [Toast ''Slide deleted''
                  ''The slide has been deleted but there may have been an issue removing the file.''
                  Unset]"
      by (simp add: eq trF deleteRecord_trace tr3' since_def)
    show ?thesis
      using a b c by (simp add: eq)
  qed
qed


lemma count_removals:
  "count_list (netCalls tr) (StorageRemove p) = count_list (blobEvents tr) (Net (StorageRemove p))"
  by (induction tr) (auto split: event.splits call.splits)

lemma prefix_count_list: "prefix xs ys \<Longrightarrow> count_list xs a \<le> count_list ys a"
  by (auto simp: prefix_def)

lemma deleteSlide_removals_bounded:
  "count_list (netCalls (since s (deleteSlide run cl slideId filePath s))) (StorageRemove filePath) \<le> 3"
  using prefix_count_list [OF deleteSlide_blobEvents [of s run cl slideId filePath],
      of "Net (StorageRemove filePath)"]
  by (simp add: count_removals)

text \<open>
  C4. The events of the blob step of any execution of \<open>deleteSlide\<close> are an initial
  part of: removal, wait of 1000 ms, removal, wait of 2000 ms, removal; so the removal
  is attempted at most 3 times, with a wait of 1000 ms times the number of the failed
  attempt before the next one. When the guard passed, the path is not empty and all
  three attempts fail, these are exactly the events of the blob step, and the delete of
  the metadata record is issued all the same. When that deletion is then confirmed
  (and the store answers a query with rows of the table), the slide is neither in the
  displayed collection nor in the table at the end, and the last event is the toast
  that the slide has been deleted but there may have been an issue removing the file.
\<close>

theorem deleteSlide_blob_removal_nonfatal:
  "prefix (blobEvents (since s (deleteSlide run cl slideId filePath s)))
     [Net (StorageRemove filePath), Sleep 1000, Net (StorageRemove filePath), Sleep 2000,
      Net (StorageRemove filePath)]
   \<and> count_list (netCalls (since s (deleteSlide run cl slideId filePath s)))
        (StorageRemove filePath) \<le> 3
   \<and> (supabase cl \<and> filePath \<noteq> [] \<and> \<not> failed (replyAt 0 (script s))
      \<and> failed (replyAt 1 (script s)) \<and> failed (replyAt 2 (script s)) \<and> failed (replyAt 3 (script s))
      \<longrightarrow> blobEvents (since s (deleteSlide run cl slideId filePath s))
            = [Net (StorageRemove filePath), Sleep 1000, Net (StorageRemove filePath), Sleep 2000,
               Net (StorageRemove filePath)]
        \<and> DeleteById slideId \<in> set (netCalls (since s (deleteSlide run cl slideId filePath s)))
        \<and> (deletionConfirmed cl slideId filePath s \<and> (\<forall>q rs. set (run q rs) \<subseteq> set rs)
           \<longrightarrow> slideId \<notin> slide_id ` set (slides (deleteSlide run cl slideId filePath s))
             \<and> slideId \<notin> slide_id ` set (rows (deleteSlide run cl slideId filePath s))
             \<and> (\<exists>pre. since s (deleteSlide run cl slideId filePath s) = pre @
                   [Toast ''Slide deleted''
                      ''The slide has been deleted but there may have been an issue removing the file.''
                      Unset])))"
  using deleteSlide_blobEvents [where s = s and run = run and cl = cl and slideId = slideId
      and filePath = filePath]
    deleteSlide_removals_bounded [where s = s and run = run and cl = cl and slideId = slideId
      and filePath = filePath]
    deleteSlide_all_removals_failed [where s = s and run = run and cl = cl and slideId = slideId
      and filePath = filePath]
  by blast

text \<open>
  An instance: the three removals fail (twice with an error, once by rejecting), the
  delete of the record succeeds and so does the refetch.
\<close>

theorem deleteSlide_blob_removal_nonfatal_witness:
  "supabase oldestFirst \<and> ''slides/1.pdf'' \<noteq> []
   \<and> \<not> failed (replyAt 0 (script (pageWith [Success, ErrorField ''Object not found'' ''{}'',
          Rejects (JsError ''Failed to fetch''), ErrorField ''Object not found'' ''{}''])))
   \<and> failed (replyAt 1 (script (pageWith [Success, ErrorField ''Object not found'' ''{}'',
          Rejects (JsError ''Failed to fetch''), ErrorField ''Object not found'' ''{}''])))
   \<and> failed (replyAt 2 (script (pageWith [Success, ErrorField ''Object not found'' ''{}'',
          Rejects (JsError ''Failed to fetch''), ErrorField ''Object not found'' ''{}''])))
   \<and> failed (replyAt 3 (script (pageWith [Success, ErrorField ''Object not found'' ''{}'',
          Rejects (JsError ''Failed to fetch''), ErrorField ''Object not found'' ''{}''])))
   \<and> deletionConfirmed oldestFirst ''a1'' ''slides/1.pdf''
        (pageWith [Success, ErrorField ''Object not found'' ''{}'',
          Rejects (JsError ''Failed to fetch''), ErrorField ''Object not found'' ''{}''])
   \<and> (\<forall>q rs. set (wholeTable q rs) \<subseteq> set rs)
   \<and> blobEvents (since (pageWith [Success, ErrorField ''Object not found'' ''{}'',
          Rejects (JsError ''Failed to fetch''), ErrorField ''Object not found'' ''{}''])
        (deleteSlide wholeTable oldestFirst ''a1'' ''slides/1.pdf''
           (pageWith [Success, ErrorField ''Object not found'' ''{}'',
              Rejects (JsError ''Failed to fetch''), ErrorField ''Object not found'' ''{}''])))
       = [Net (StorageRemove ''slides/1.pdf''), Sleep 1000, Net (StorageRemove ''slides/1.pdf''),
          Sleep 2000, Net (StorageRemove ''slides/1.pdf'')]
   \<and> ''a1'' \<notin> slide_id ` set (slides (deleteSlide wholeTable oldestFirst ''a1'' ''slides/1.pdf''
           (pageWith [Success, ErrorField ''Object not found'' ''{}'',
              Rejects (JsError ''Failed to fetch''), ErrorField ''Object not found'' ''{}''])))
   \<and> slides (deleteSlide wholeTable oldestFirst ''a1'' ''slides/1.pdf''
           (pageWith [Success, ErrorField ''Object not found'' ''{}'',
              Rejects (JsError ''Failed to fetch''), ErrorField ''Object not found'' ''{}'']))
       = [slideB]
   \<and> toastTitles (since (pageWith [Success, ErrorField ''Object not found'' ''{}'',
          Rejects (JsError ''Failed to fetch''), ErrorField ''Object not found'' ''{}''])
        (deleteSlide wholeTable oldestFirst ''a1'' ''slides/1.pdf''
           (pageWith [Success, ErrorField ''Object not found'' ''{}'',
              Rejects (JsError ''Failed to fetch''), ErrorField ''Object not found'' ''{}''])))
       = [''Deleting slide...'', ''Slide deleted'']"
proof -
  let ?s = "pageWith [Success, ErrorField ''Object not found'' ''{}'',
          Rejects (JsError ''Failed to fetch''), ErrorField ''Object not found'' ''{}'']"
  have h: "supabase oldestFirst" "''slides/1.pdf'' \<noteq> []" "\<not> failed (replyAt 0 (script ?s))"
      "failed (replyAt 1 (script ?s))" "failed (replyAt 2 (script ?s))" "failed (replyAt 3 (script ?s))"
    by (simp_all add: oldestFirst_def pageWith_def replyAt_def)
  have dc: "deletionConfirmed oldestFirst ''a1'' ''slides/1.pdf'' ?s"
    by (simp add: eval_delete eval_page)
  have sub: "\<forall>q rs. set (wholeTable q rs) \<subseteq> set rs"
    by (simp add: wholeTable_def)
  have rest: "slides (deleteSlide wholeTable oldestFirst ''a1'' ''slides/1.pdf'' ?s) = [slideB]"
      "toastTitles (since ?s (deleteSlide wholeTable oldestFirst ''a1'' ''slides/1.pdf'' ?s))
         = [''Deleting slide...'', ''Slide deleted'']"
    by (simp_all add: eval_delete eval_page)
  show ?thesis
    using deleteSlide_blob_removal_nonfatal [where s = ?s and run = wholeTable and cl = oldestFirst
        and slideId = "''a1''" and filePath = "''slides/1.pdf''"]
      h dc sub rest
    by blast
qed

section \<open>Properties of the upload form\<close>

lemma dropWhile_all: "(\<forall>x \<in> set (dropWhile P s). P x) \<longleftrightarrow> (\<forall>x \<in> set s. P x)"
  by (induction s) auto

lemma trim_empty_iff: "trim s = [] \<longleftrightarrow> (\<forall>c \<in> set s. isSpace c)"
  by (simp add: trim_def dropWhile_eq_Nil_conv dropWhile_all)

lemma splitDot_acc: "splitDot acc s \<noteq> []"
  by (induction s arbitrary: acc) auto

lemma splitDot_no_dot: "CHR ''.'' \<notin> set s \<Longrightarrow> splitDot acc s = [acc @ s]"
  by (induction s arbitrary: acc) auto

lemma popLast_splitDot:
  "CHR ''.'' \<notin> set ext \<Longrightarrow> popLast (splitDot acc (base @ ''.'' @ ext)) = ext"
proof (induction base arbitrary: acc)
  case Nil
  then show ?case by (simp add: splitDot_no_dot popLast_def)
next
  case (Cons c base)
  have ne: "splitDot [] (base @ ''.'' @ ext) \<noteq> []" by (rule splitDot_acc)
  show ?case
  proof (cases "c = CHR ''.''")
    case True
    have "popLast (acc # splitDot [] (base @ ''.'' @ ext)) = popLast (splitDot [] (base @ ''.'' @ ext))"
      using ne by (cases "rev (splitDot [] (base @ ''.'' @ ext))") (simp_all add: popLast_def)
    then show ?thesis using True Cons by simp
  next
    case False
    then show ?thesis using Cons by simp
  qed
qed

lemma progressTicks_eq:
  "progressTicks n s =
     s\<lparr>trace := trace s @ map SetUploadProgress (progressValues n (uploadProgress s)),
       uploadProgress := last (uploadProgress s # progressValues n (uploadProgress s))\<rparr>"
proof (induction n arbitrary: s)
  case 0
  show ?case by simp
next
  case (Suc n)
  show ?case
    by (simp add: Suc.IH progressTick_def setUploadProgress_def emit_def)
qed

lemma map_SetUploadProgress [simp]:
  "netCalls (map SetUploadProgress xs) = []"
  "failureToasts (map SetUploadProgress xs) = []"
  "callbacks (map SetUploadProgress xs) = []"
  by (induction xs) simp_all

text \<open>
  C6. \<open>handleFileSelect\<close> does not select a file whose type is not one of
  \<open>application/pdf\<close>, \<open>image/jpeg\<close>, \<open>image/png\<close>, \<open>image/gif\<close>, or whose size
  exceeds 10 MB: the only thing that happens is one toast that says why, and the
  selected file stays the one it was; any other file becomes the selected file. When no
  file is selected, or the title or the course identifier is empty or has only white
  space (any of the characters \<open>trim\<close> strips), \<open>handleUpload\<close> does nothing but show
  one toast that says what is missing (the file first, then the title, then the course
  identifier): no call is issued, no reply is consumed, no state changes, and nothing
  is tried again.
\<close>

theorem upload_validation:
  "handleFileSelect f s =
     (if mime_type f \<notin> {''application/pdf'', ''image/jpeg'', ''image/png'', ''image/gif''} then
        s\<lparr>trace := trace s @ [Toast ''Invalid file type''
             ''Please upload a PDF or image file (JPEG, PNG, GIF).'' Destructive]\<rparr>
      else if byte_size f > 10 * 1024 * 1024 then
        s\<lparr>trace := trace s @ [Toast ''File too large''
             ''Please upload a file smaller than 10MB.'' Destructive]\<rparr>
      else s\<lparr>trace := trace s @ [SetSelectedFile (Some f)], selectedFile := Some f\<rparr>)
   \<and> (selectedFile s = None \<or> (\<forall>c \<in> set (title s). isSpace c) \<or> (\<forall>c \<in> set (courseId s). isSpace c) \<longrightarrow>
        handleUpload now rnd ticks getPublicUrl s =
          s\<lparr>trace := trace s @
              [if selectedFile s = None then
                 Toast ''No file selected'' ''Please select a file to upload.'' Destructive
               else if \<forall>c \<in> set (title s). isSpace c then
                 Toast ''Title required'' ''Please enter a title for your slide.'' Destructive
               else Toast ''Course ID required'' ''Please enter a course ID for your slide.''
                      Destructive]\<rparr>)"
  by (auto simp: handleFileSelect_def validTypes_def handleUpload_def toast_def emit_def
        setSelectedFile_def trim_empty_iff split: option.splits)



text \<open>
  An instance: a Word document, a PDF of 15 MB, and a title of a no-break space and an
  ideographic space with a course identifier of two spaces.
\<close>

theorem upload_validation_witness:
  "handleFileSelect
     \<lparr>file_name = ''notes.docx'',
      mime_type = ''application/vnd.openxmlformats-officedocument.wordprocessingml.document'',
      byte_size = 1024\<rparr> (formWith [])
     = (formWith [])\<lparr>trace := [Toast ''Invalid file type''
          ''Please upload a PDF or image file (JPEG, PNG, GIF).'' Destructive]\<rparr>
   \<and> handleFileSelect
     \<lparr>file_name = ''big.pdf'', mime_type = ''application/pdf'', byte_size = 15728640\<rparr> (formWith [])
     = (formWith [])\<lparr>trace := [Toast ''File too large''
          ''Please upload a file smaller than 10MB.'' Destructive]\<rparr>
   \<and> trim [0xA0, 0x3000] = []
   \<and> handleUpload 1700000000000 ''0.4fzyo82mvyr'' 3 cdnUrl
        ((formWith [])\<lparr>title := [0xA0, 0x3000], courseId := codeUnits ''  ''\<rparr>)
     = (formWith [])\<lparr>title := [0xA0, 0x3000], courseId := codeUnits ''  '',
          trace := [Toast ''Title required'' ''Please enter a title for your slide.'' Destructive]\<rparr>"
proof -
  let ?docx = "\<lparr>file_name = ''notes.docx'',
      mime_type = ''application/vnd.openxmlformats-officedocument.wordprocessingml.document'',
      byte_size = 1024\<rparr>"
  let ?big = "\<lparr>file_name = ''big.pdf'', mime_type = ''application/pdf'', byte_size = 15728640\<rparr>"
  let ?blank = "(formWith [])\<lparr>title := [0xA0, 0x3000], courseId := codeUnits ''  ''\<rparr>"
  have sp: "\<forall>c \<in> set (title ?blank). isSpace c"
    by (simp add: isSpace_def)
  have tr: "trim [0xA0, 0x3000] = []"
    by (simp add: trim_def isSpace_def)
  have a: "handleFileSelect ?docx (formWith [])
     = (formWith [])\<lparr>trace := [Toast ''Invalid file type''
          ''Please upload a PDF or image file (JPEG, PNG, GIF).'' Destructive]\<rparr>"
    using upload_validation [of ?docx "formWith []"] by (simp add: formWith_def)
  have b: "handleFileSelect ?big (formWith [])
     = (formWith [])\<lparr>trace := [Toast ''File too large''
          ''Please upload a file smaller than 10MB.'' Destructive]\<rparr>"
    using upload_validation [of ?big "formWith []"] by (simp add: formWith_def)
  have c: "handleUpload 1700000000000 ''0.4fzyo82mvyr'' 3 cdnUrl ?blank
     = (formWith [])\<lparr>title := [0xA0, 0x3000], courseId := codeUnits ''  '',
          trace := [Toast ''Title required'' ''Please enter a title for your slide.'' Destructive]\<rparr>"
    using upload_validation [of ?docx ?blank 1700000000000 "''0.4fzyo82mvyr''" 3 cdnUrl] sp
    by (simp add: formWith_def)
  show ?thesis
    using tr a b c by blast
qed

text \<open>
  C7. With a file selected and a title and a course identifier that \<open>trim\<close> does not
  make empty,
  \<open>handleUpload\<close> uploads the file once, to the path \<open>slides/\<close>, the time, \<open>-\<close>, the
  random suffix (13 characters at most), \<open>.\<close> and the text after the last dot of the
  file name. If the upload fails, nothing else is called and the failure is shown. If
  it succeeds, one row is inserted with that path and its public URL; if the insert
  fails, the failure is shown and no call removes the uploaded blob. If both succeed,
  no failure is shown, the completion callback is called once with the public URL and
  the metadata, and the selected file, the title, the description and the course
  identifier are cleared. On a failure the form keeps its values and the callback is
  not called. In every case the uploading flag is false at the end.
\<close>

theorem upload_flow:
  assumes v: "selectedFile s = Some f" "trim (title s) \<noteq> []" "trim (courseId s) \<noteq> []"
  shows "let path = storagePath now rnd f;
             url = getPublicUrl path;
             row = \<lparr>ins_title = title s, ins_description = description s,
                    ins_course_id = courseId s, ins_file_path = path, ins_file_url = url,
                    ins_file_type = mime_type f, ins_file_size = byte_size f\<rparr>;
             s' = handleUpload now rnd ticks getPublicUrl s;
             r0 = replyAt 0 (script s);
             r1 = replyAt 1 (script s)
         in (\<forall>base ext. file_name f = base @ ''.'' @ ext \<and> CHR ''.'' \<notin> set ext \<longrightarrow>
               path = ''slides/'' @ string_of_nat now @ ''-'' @ take 13 (drop 2 rnd) @ ''.'' @ ext)
          \<and> isUploading s' = False
          \<and> (failed r0 \<longrightarrow>
                netCalls (since s s') = [StorageUpload path f]
              \<and> failureToasts (since s s') = [''Upload failed'']
              \<and> callbacks (since s s') = []
              \<and> selectedFile s' = Some f \<and> title s' = title s
              \<and> description s' = description s \<and> courseId s' = courseId s)
          \<and> (\<not> failed r0 \<and> failed r1 \<longrightarrow>
                netCalls (since s s') = [StorageUpload path f, Insert row]
              \<and> failureToasts (since s s') = [''Upload failed'']
              \<and> callbacks (since s s') = []
              \<and> selectedFile s' = Some f \<and> title s' = title s
              \<and> description s' = description s \<and> courseId s' = courseId s)
          \<and> (\<not> failed r0 \<and> \<not> failed r1 \<longrightarrow>
                netCalls (since s s') = [StorageUpload path f, Insert row]
              \<and> failureToasts (since s s') = []
              \<and> callbacks (since s s') =
                   [(url, \<lparr>md_title = title s, md_description = description s,
                           md_courseId = courseId s, md_fileName = file_name f,
                           md_fileType = mime_type f, md_fileSize = byte_size f,
                           md_file_path = path\<rparr>)]
              \<and> selectedFile s' = None \<and> title s' = [] \<and> description s' = []
              \<and> courseId s' = [])"
proof -
  have path: "\<forall>base ext. file_name f = base @ ''.'' @ ext \<and> CHR ''.'' \<notin> set ext \<longrightarrow>
       storagePath now rnd f = ''slides/'' @ string_of_nat now @ ''-'' @ take 13 (drop 2 rnd) @ ''.'' @ ext"
    using popLast_splitDot [of _ "[]"] by (auto simp: storagePath_def Let_def simp del: append_assoc)
  show ?thesis
    unfolding Let_def
    apply (intro conjI)
    subgoal using path by simp
    subgoal using v by (simp add: handleUpload_def Let_def setIsUploading_def emit_def split: prod.splits)
    subgoal
      using v by (cases "replyAt 0 (script s)")
        (simp_all add: handleUpload_def upload_try_def Let_def net_replyAt replyAt_drop progressTicks_eq
           upload_setters since_def)
    subgoal
      using v by (cases "replyAt 0 (script s)"; cases "replyAt 1 (script s)")
        (simp_all add: handleUpload_def upload_try_def Let_def net_replyAt replyAt_drop progressTicks_eq
           upload_setters since_def)
    subgoal
      using v by (cases "replyAt 0 (script s)"; cases "replyAt 1 (script s)")
        (simp_all add: handleUpload_def upload_try_def Let_def net_replyAt replyAt_drop progressTicks_eq
           upload_setters since_def)
    done
qed


text \<open>
  An instance: a PDF of 2 MB named \<open>deck.v2.pdf\<close>. With both calls answered without
  error, the blob is uploaded once and one row is inserted; with the insert answered
  by an error, the failure is shown and the blob stays.
\<close>

theorem upload_flow_witness:
  "selectedFile (formWith []) = Some deckPdf
   \<and> trim (title (formWith [])) \<noteq> [] \<and> trim (courseId (formWith [])) \<noteq> []
   \<and> \<not> failed (replyAt 0 (script (formWith []))) \<and> \<not> failed (replyAt 1 (script (formWith [])))
   \<and> storagePath 1700000000000 ''0.4fzyo82mvyr'' deckPdf = ''slides/1700000000000-4fzyo82mvyr.pdf''
   \<and> netCalls (since (formWith [])
        (handleUpload 1700000000000 ''0.4fzyo82mvyr'' 3 cdnUrl (formWith [])))
       = [StorageUpload ''slides/1700000000000-4fzyo82mvyr.pdf'' deckPdf,
          Insert \<lparr>ins_title = codeUnits ''Week 1'', ins_description = codeUnits ''Intro'',
                  ins_course_id = codeUnits ''CS101'',
                  ins_file_path = ''slides/1700000000000-4fzyo82mvyr.pdf'',
                  ins_file_url = ''https://cdn/slides/1700000000000-4fzyo82mvyr.pdf'',
                  ins_file_type = ''application/pdf'', ins_file_size = 2097152\<rparr>]
   \<and> selectedFile
        (handleUpload 1700000000000 ''0.4fzyo82mvyr'' 3 cdnUrl (formWith []))
       = None
   \<and> title (handleUpload 1700000000000 ''0.4fzyo82mvyr'' 3 cdnUrl (formWith []))
       = []
   \<and> \<not> failed (replyAt 0 (script (formWith [Success, ErrorField ''duplicate key'' ''{}''])))
   \<and> failed (replyAt 1 (script (formWith [Success, ErrorField ''duplicate key'' ''{}''])))
   \<and> netCalls (since (formWith [Success, ErrorField ''duplicate key'' ''{}''])
        (handleUpload 1700000000000 ''0.4fzyo82mvyr'' 3 cdnUrl
           (formWith [Success, ErrorField ''duplicate key'' ''{}''])))
       = [StorageUpload ''slides/1700000000000-4fzyo82mvyr.pdf'' deckPdf,
          Insert \<lparr>ins_title = codeUnits ''Week 1'', ins_description = codeUnits ''Intro'',
                  ins_course_id = codeUnits ''CS101'',
                  ins_file_path = ''slides/1700000000000-4fzyo82mvyr.pdf'',
                  ins_file_url = ''https://cdn/slides/1700000000000-4fzyo82mvyr.pdf'',
                  ins_file_type = ''application/pdf'', ins_file_size = 2097152\<rparr>]
   \<and> failureToasts (since (formWith [Success, ErrorField ''duplicate key'' ''{}''])
        (handleUpload 1700000000000 ''0.4fzyo82mvyr'' 3 cdnUrl
           (formWith [Success, ErrorField ''duplicate key'' ''{}''])))
       = [''Upload failed'']"
proof -
  let ?bad = "formWith [Success, ErrorField ''duplicate key'' ''{}'']"
  have v: "selectedFile (formWith rs) = Some deckPdf" "trim (title (formWith rs)) \<noteq> []"
      "trim (courseId (formWith rs)) \<noteq> []" for rs
    by (simp_all add: formWith_def trim_def isSpace_def codeUnits_def)
  have ok: "\<not> failed (replyAt 0 (script (formWith [])))" "\<not> failed (replyAt 1 (script (formWith [])))"
    by (simp_all add: formWith_def replyAt_def)
  have bad: "\<not> failed (replyAt 0 (script ?bad))" "failed (replyAt 1 (script ?bad))"
    by (simp_all add: formWith_def replyAt_def)
  have p: "storagePath 1700000000000 ''0.4fzyo82mvyr'' deckPdf = ''slides/1700000000000-4fzyo82mvyr.pdf''"
    by (simp add: storagePath_def string_of_nat.simps digit_def popLast_def deckPdf_def)
  have u: "cdnUrl ''slides/1700000000000-4fzyo82mvyr.pdf''
      = ''https://cdn/slides/1700000000000-4fzyo82mvyr.pdf''"
    by (simp add: cdnUrl_def)
  have f: "title (formWith rs) = codeUnits ''Week 1''"
      "description (formWith rs) = codeUnits ''Intro''"
      "courseId (formWith rs) = codeUnits ''CS101''" "mime_type deckPdf = ''application/pdf''"
      "byte_size deckPdf = 2097152" for rs
    by (simp_all add: formWith_def deckPdf_def)
  note w1 = upload_flow [OF v [of "[]"], where now = 1700000000000 and rnd = "''0.4fzyo82mvyr''"
      and getPublicUrl = cdnUrl and ticks = 3, unfolded Let_def p f u]
  note w2 = upload_flow [OF v [of "[Success, ErrorField ''duplicate key'' ''{}'']"],
      where now = 1700000000000 and rnd = "''0.4fzyo82mvyr''" and getPublicUrl = cdnUrl and ticks = 3,
      unfolded Let_def p f u]
  show ?thesis
    using v [of "[]"] ok bad p w1 w2 by simp
qed

end
